theory Spec2Isabelle
  imports Complex_Main "HOL-Library.Word"
begin

section \<open>The JavaScript values the program computes with\<close>

subsection \<open>Strings\<close>

text \<open>
  A JavaScript string is a sequence of 16-bit code units. Literals of the source are
  written \<open>js ''...''\<close>; every literal of the program is ASCII.
\<close>

type_synonym code_unit = "16 word"
type_synonym jsstring = "code_unit list"

definition cu :: "char \<Rightarrow> code_unit" where
  "cu c = of_char c"

definition js :: "string \<Rightarrow> jsstring" where
  "js s = map cu s"

definition apostrophe :: code_unit where
  "apostrophe = 0x27"

text \<open>\<open>String.prototype.split\<close> with a one-character separator: always at least one part.\<close>

fun split :: "code_unit \<Rightarrow> jsstring \<Rightarrow> jsstring list" where
  "split sep [] = [[]]"
| "split sep (c # cs) =
     (let r = split sep cs in if c = sep then [] # r else (c # hd r) # tl r)"

text \<open>
  The characters \<open>String.prototype.trim\<close> removes (and \<open>Number\<close> skips): ECMAScript's
  WhiteSpace and LineTerminator.
\<close>

definition is_ws :: "code_unit \<Rightarrow> bool" where
  "is_ws c \<longleftrightarrow>
     c \<in> {0x09, 0x0A, 0x0B, 0x0C, 0x0D, 0x20, 0xA0, 0x1680, 0x2028, 0x2029, 0x202F, 0x205F,
          0x3000, 0xFEFF}
     \<or> (0x2000 \<le> c \<and> c \<le> 0x200A)"

definition trim :: "jsstring \<Rightarrow> jsstring" where
  "trim s = rev (dropWhile is_ws (rev (dropWhile is_ws s)))"

subsection \<open>Numbers\<close>

text \<open>
  A JavaScript number is an IEEE 754 binary64 value. A finite one is the rational it
  denotes; every result of parsing or adding goes through \<open>roundToDouble\<close> (round to
  nearest, ties to even, overflow to an infinity). The two zeros are one value here:
  the program only compares numbers with \<open>isNaN\<close> and prints them, and \<open>-0\<close> prints
  as \<open>0\<close>.
\<close>

datatype jsnum = NaN | PosInfinity | NegInfinity | Fin rat

definition pow_int :: "rat \<Rightarrow> int \<Rightarrow> rat" where
  "pow_int b e = (if 0 \<le> e then b ^ nat e else 1 / b ^ nat (- e))"

function bit_length :: "int \<Rightarrow> nat" where
  "bit_length n = (if n \<le> 0 then 0 else Suc (bit_length (n div 2)))"
  by pat_completeness auto
termination
  by (relation "measure nat") auto

declare bit_length.simps [simp del]

text \<open>\<open>ilog2 a\<close> is the \<open>e\<close> with \<open>2^e \<le> a < 2^(e+1)\<close>, for \<open>a > 0\<close>.\<close>

definition ilog2 :: "rat \<Rightarrow> int" where
  "ilog2 a = (if 1 \<le> a then int (bit_length \<lfloor>a\<rfloor>) - 1
              else - int (bit_length (\<lceil>1 / a\<rceil> - 1)))"

definition round_half_even :: "rat \<Rightarrow> int" where
  "round_half_even r =
     (let f = \<lfloor>r\<rfloor>; d = r - of_int f
      in if d < 1 / 2 then f else if 1 / 2 < d then f + 1 else if even f then f else f + 1)"

definition roundToDouble :: "rat \<Rightarrow> jsnum" where
  "roundToDouble r =
     (if r = 0 then Fin 0
      else let a = \<bar>r\<bar>;
               e = max (ilog2 a) (- 1022);
               q = pow_int 2 (e - 52);
               v = of_int (round_half_even (a / q)) * q
           in if 2 ^ 1024 \<le> v then (if r < 0 then NegInfinity else PosInfinity)
              else Fin (if r < 0 then - v else v))"

text \<open>The \<open>+\<close> of two numbers.\<close>

fun js_add :: "jsnum \<Rightarrow> jsnum \<Rightarrow> jsnum" where
  "js_add NaN _ = NaN"
| "js_add _ NaN = NaN"
| "js_add PosInfinity NegInfinity = NaN"
| "js_add NegInfinity PosInfinity = NaN"
| "js_add PosInfinity _ = PosInfinity"
| "js_add NegInfinity _ = NegInfinity"
| "js_add _ PosInfinity = PosInfinity"
| "js_add _ NegInfinity = NegInfinity"
| "js_add (Fin a) (Fin b) = roundToDouble (a + b)"

fun js_neg :: "jsnum \<Rightarrow> jsnum" where
  "js_neg NaN = NaN"
| "js_neg PosInfinity = NegInfinity"
| "js_neg NegInfinity = PosInfinity"
| "js_neg (Fin a) = Fin (- a)"

definition isNaN :: "jsnum \<Rightarrow> bool" where
  "isNaN x \<longleftrightarrow> x = NaN"

subsection \<open>\<open>Number(string)\<close>\<close>

text \<open>
  ECMAScript's StringToNumber: white space is stripped, the empty string is 0, then the
  whole text must be a binary, octal or hexadecimal integer literal (\<open>0b\<close>, \<open>0o\<close>,
  \<open>0x\<close>, unsigned), or an optionally signed \<open>Infinity\<close> or decimal literal with an
  optional fraction and exponent. Anything else is \<open>NaN\<close>.
\<close>

definition is_digit :: "code_unit \<Rightarrow> bool" where
  "is_digit c \<longleftrightarrow> 0x30 \<le> c \<and> c \<le> 0x39"

definition digit_value :: "code_unit \<Rightarrow> int" where
  "digit_value c =
     (if 0x30 \<le> c \<and> c \<le> 0x39 then uint c - 0x30
      else if 0x61 \<le> c \<and> c \<le> 0x66 then uint c - 0x61 + 10
      else if 0x41 \<le> c \<and> c \<le> 0x46 then uint c - 0x41 + 10
      else 16)"

definition digits_value :: "int \<Rightarrow> jsstring \<Rightarrow> int" where
  "digits_value b ds = foldl (\<lambda>n c. n * b + digit_value c) 0 ds"

definition is_digits :: "int \<Rightarrow> jsstring \<Rightarrow> bool" where
  "is_digits b ds \<longleftrightarrow> ds \<noteq> [] \<and> list_all (\<lambda>c. digit_value c < b) ds"

definition parse_exponent :: "jsstring \<Rightarrow> int option" where
  "parse_exponent s =
     (case s of
        [] \<Rightarrow> Some 0
      | c # t \<Rightarrow>
          if c = cu CHR ''e'' \<or> c = cu CHR ''E'' then
            (let (neg, ds) = (case t of
                                [] \<Rightarrow> (False, [])
                              | d # u \<Rightarrow> if d = cu CHR ''+'' then (False, u)
                                         else if d = cu CHR ''-'' then (True, u)
                                         else (False, t))
             in if is_digits 10 ds
                then Some (if neg then - digits_value 10 ds else digits_value 10 ds)
                else None)
          else None)"

definition parse_unsigned_decimal :: "jsstring \<Rightarrow> jsnum option" where
  "parse_unsigned_decimal s =
     (if s = js ''Infinity'' then Some PosInfinity
      else
        let ip = takeWhile is_digit s;
            r1 = dropWhile is_digit s;
            (fp, r2) = (case r1 of
                          [] \<Rightarrow> ([], [])
                        | c # t \<Rightarrow> if c = cu CHR ''.''
                                   then (takeWhile is_digit t, dropWhile is_digit t)
                                   else ([], r1))
        in if ip = [] \<and> fp = [] then None
           else (case parse_exponent r2 of
                   None \<Rightarrow> None
                 | Some x \<Rightarrow>
                     Some (roundToDouble
                       (of_int (digits_value 10 (ip @ fp)) * pow_int 10 (x - int (length fp))))))"

definition parse_decimal :: "jsstring \<Rightarrow> jsnum option" where
  "parse_decimal s =
     (case s of
        [] \<Rightarrow> None
      | c # t \<Rightarrow> if c = cu CHR ''+'' then parse_unsigned_decimal t
                 else if c = cu CHR ''-'' then map_option js_neg (parse_unsigned_decimal t)
                 else parse_unsigned_decimal s)"

definition parse_non_decimal :: "jsstring \<Rightarrow> jsnum option" where
  "parse_non_decimal s =
     (case s of
        z # x # ds \<Rightarrow>
          if z \<noteq> cu CHR ''0'' then None
          else
            (let b = (if x = cu CHR ''b'' \<or> x = cu CHR ''B'' then 2
                      else if x = cu CHR ''o'' \<or> x = cu CHR ''O'' then 8
                      else if x = cu CHR ''x'' \<or> x = cu CHR ''X'' then 16
                      else 0)
             in if is_digits b ds then Some (roundToDouble (of_int (digits_value b ds)))
                else None)
      | _ \<Rightarrow> None)"

definition Number :: "jsstring \<Rightarrow> jsnum" where
  "Number s =
     (let t = trim s
      in if t = [] then Fin 0
         else (case parse_non_decimal t of
                 Some n \<Rightarrow> n
               | None \<Rightarrow> (case parse_decimal t of Some n \<Rightarrow> n | None \<Rightarrow> NaN)))"

subsection \<open>\<open>String(number)\<close>\<close>

text \<open>
  ECMAScript's Number::toString in radix 10: the shortest decimal digit string \<open>s\<close> (of
  \<open>k\<close> digits, scaled by \<open>10^(n-k)\<close>) that reads back as the same number, laid out
  plainly when \<open>-6 < n \<le> 21\<close> and in exponent notation otherwise.
\<close>

function dec_length :: "int \<Rightarrow> nat" where
  "dec_length n = (if n \<le> 0 then 0 else Suc (dec_length (n div 10)))"
  by pat_completeness auto
termination
  by (relation "measure nat") auto

declare dec_length.simps [simp del]

definition ilog10 :: "rat \<Rightarrow> int" where
  "ilog10 a = (if 1 \<le> a then int (dec_length \<lfloor>a\<rfloor>) - 1
               else - int (dec_length (\<lceil>1 / a\<rceil> - 1)))"

function dec_digits :: "int \<Rightarrow> jsstring" where
  "dec_digits n = (if n < 10 then [word_of_int (0x30 + n)]
                   else dec_digits (n div 10) @ [word_of_int (0x30 + n mod 10)])"
  by pat_completeness auto
termination
  by (relation "measure nat") auto

declare dec_digits.simps [simp del]

definition digit_candidates :: "rat \<Rightarrow> nat \<Rightarrow> (int \<times> int) list" where
  "digit_candidates x k =
     [(n, s). n \<leftarrow> [ilog10 x + 1, ilog10 x + 2],
              s \<leftarrow> [\<lfloor>x / pow_int 10 (n - int k)\<rfloor>, \<lfloor>x / pow_int 10 (n - int k)\<rfloor> + 1],
              10 ^ (k - 1) \<le> s \<and> s < 10 ^ k \<and>
              roundToDouble (of_int s * pow_int 10 (n - int k)) = Fin x]"

definition closer :: "rat \<Rightarrow> nat \<Rightarrow> int \<times> int \<Rightarrow> int \<times> int \<Rightarrow> int \<times> int" where
  "closer x k c d =
     (let err = (\<lambda>(n, s). \<bar>of_int s * pow_int 10 (n - int k) - x\<bar>)
      in if err d < err c \<or> (err d = err c \<and> even (snd d)) then d else c)"

definition shortest_digits :: "rat \<Rightarrow> nat \<times> int \<times> int" where
  "shortest_digits x =
     (case List.find (\<lambda>k. digit_candidates x k \<noteq> []) [1 ..< 18] of
        Some k \<Rightarrow> (case digit_candidates x k of
                      c # cs \<Rightarrow> (k, foldl (closer x k) c cs)
                    | [] \<Rightarrow> (k, 0, 0))
      | None \<Rightarrow> (17, ilog10 x + 1, \<lfloor>x / pow_int 10 (ilog10 x + 1 - 17)\<rfloor>))"

definition positive_to_string :: "rat \<Rightarrow> jsstring" where
  "positive_to_string x =
     (let (k, n, s) = shortest_digits x;
          ds = dec_digits s;
          e = (if 0 \<le> n - 1 then js ''e+'' else js ''e-'') @ dec_digits \<bar>n - 1\<bar>
      in if int k \<le> n \<and> n \<le> 21 then ds @ replicate (nat (n - int k)) (cu CHR ''0'')
         else if 0 < n \<and> n \<le> 21 then take (nat n) ds @ js ''.'' @ drop (nat n) ds
         else if - 6 < n \<and> n \<le> 0 then js ''0.'' @ replicate (nat (- n)) (cu CHR ''0'') @ ds
         else if k = 1 then ds @ e
         else take 1 ds @ js ''.'' @ drop 1 ds @ e)"

fun ToString :: "jsnum \<Rightarrow> jsstring" where
  "ToString NaN = js ''NaN''"
| "ToString PosInfinity = js ''Infinity''"
| "ToString NegInfinity = js ''-Infinity''"
| "ToString (Fin x) =
     (if x = 0 then js ''0''
      else if x < 0 then js ''-'' @ positive_to_string (- x)
      else positive_to_string x)"

subsection \<open>Errors and results\<close>

text \<open>
  A thrown value is an error object with its message. A computation that may throw
  returns \<open>Inl\<close> of the error; \<open>try_catch\<close> is the \<open>try { ... } catch (err) { ... }\<close>
  of the source.
\<close>

datatype jserror =
    Error (message: jsstring)
  | URIError (message: jsstring)
  | TypeError (message: jsstring)
  | SyntaxError (message: jsstring)

type_synonym 'a result = "jserror + 'a"

definition try_catch :: "'a result \<Rightarrow> (jserror \<Rightarrow> 'a result) \<Rightarrow> 'a result" where
  "try_catch body handler = (case body of Inl err \<Rightarrow> handler err | Inr v \<Rightarrow> Inr v)"

definition then_do :: "'e + 'a \<Rightarrow> ('a \<Rightarrow> 'e + 'b) \<Rightarrow> 'e + 'b" where
  "then_do m f = (case m of Inl err \<Rightarrow> Inl err | Inr v \<Rightarrow> f v)"

section \<open>The expression evaluator\<close>

definition invalid_expression_message :: jsstring where
  "invalid_expression_message = js
     (''Invalid expression. Please provide a valid addition expression with numbers '' @
      ''separated by plus signs (e.g., '' @ [CHR 0x22] @ ''7+9+2'' @ [CHR 0x22] @
      ''). No trailing or consecutive plus signs allowed.'')"

definition addExpression :: "jsstring \<Rightarrow> jsnum result" where
  "addExpression expression =
     (let parts = map trim (split (cu CHR ''+'') expression)
      in if length parts < 2 \<or> list_ex (\<lambda>part. part = [] \<or> isNaN (Number part)) parts
         then Inl (Error invalid_expression_message)
         else let numbers = map Number parts
              in Inr (foldl js_add (Fin 0) numbers))"

section \<open>The response envelope and the evaluator's handlers\<close>

record content_block =
  type :: jsstring
  "text" :: jsstring

record envelope =
  content :: "content_block list"

text \<open>
  The handler of tool \<open>add\<close> (src/index.js) and of tool \<open>mathAdditionExample\<close>
  (the repository's other entry file): the same body under two names.
\<close>

definition add_tool :: "jsstring \<Rightarrow> envelope result" where
  "add_tool expression =
     try_catch
       (then_do (addExpression expression) (\<lambda>v.
          Inr \<lparr>content = [\<lparr>type = js ''text'', text = ToString v\<rparr>]\<rparr>))
       (\<lambda>err. Inr \<lparr>content = [\<lparr>type = js ''text'', text = message err\<rparr>]\<rparr>)"

definition mathAdditionExample_tool :: "jsstring \<Rightarrow> envelope result" where
  "mathAdditionExample_tool expression =
     try_catch
       (then_do (addExpression expression) (\<lambda>v.
          Inr \<lparr>content = [\<lparr>type = js ''text'', text = ToString v\<rparr>]\<rparr>))
       (\<lambda>err. Inr \<lparr>content = [\<lparr>type = js ''text'', text = message err\<rparr>]\<rparr>)"

text \<open>Prompt \<open>math_addition_example_prompt\<close>; its argument is \<open>args.expression\<close>.\<close>

definition math_addition_example_prompt :: "jsstring \<Rightarrow> envelope result" where
  "math_addition_example_prompt expression =
     try_catch
       (then_do (addExpression expression) (\<lambda>sum.
          Inr \<lparr>content = [\<lparr>type = js ''text'',
                 text = js ''The sum of '' @ [apostrophe] @ expression @ [apostrophe] @
                        js '' is '' @ ToString sum @ js ''.''\<rparr>]\<rparr>))
       (\<lambda>err. Inr \<lparr>content = [\<lparr>type = js ''text'',
                 text = js ''I encountered an issue with that expression: '' @ message err\<rparr>]\<rparr>)"

text \<open>Prompt \<open>requestExpressionForAddition\<close>, the same in both entry files.\<close>

definition requestExpressionForAddition :: "jsstring \<Rightarrow> envelope result" where
  "requestExpressionForAddition expressionFromPrompt =
     try_catch
       (then_do (addExpression expressionFromPrompt) (\<lambda>result.
          Inr \<lparr>content = [\<lparr>type = js ''text'',
                 text = js ''Okay, the sum of '' @ expressionFromPrompt @ js '' is '' @
                        ToString result @ js ''.''\<rparr>]\<rparr>))
       (\<lambda>err. Inr \<lparr>content = [\<lparr>type = js ''text'',
                 text = js ''I encountered an issue: '' @ message err @
                        js ''. Please try again with a valid expression.''\<rparr>]\<rparr>)"

text \<open>
  Prompt \<open>guidedAdditionHelp\<close>, the same in both entry files. Its argument is optional
  (\<open>None\<close> is \<open>undefined\<close>). The evaluator it calls is a parameter of
  \<open>guidedAdditionHelp_with\<close>, so that a theorem can say which paths do not call it;
  the registered handler passes \<open>addExpression\<close>.
\<close>

definition usage_reminder :: jsstring where
  "usage_reminder = js
     (''No problem. Remember to use '' @ [CHR 0x27] @ ''@add expression='' @ [CHR 0x22] @
      ''your_expression'' @ [CHR 0x22] @ '' when you want to sum numbers.'')"

definition guidedAdditionHelp_with ::
    "(jsstring \<Rightarrow> jsnum result) \<Rightarrow> jsstring option \<Rightarrow> envelope result" where
  "guidedAdditionHelp_with evaluate expressionFromPrompt =
     (case expressionFromPrompt of
        Some e \<Rightarrow>
          if e \<noteq> [] \<and> trim e \<noteq> [] then
            try_catch
              (then_do (evaluate e) (\<lambda>result.
                 Inr \<lparr>content =
                   [\<lparr>type = js ''text'',
                     text = js ''Calculating '' @ [apostrophe] @ e @ [apostrophe] @
                            js ''... The result is '' @ ToString result @ js ''.''\<rparr>,
                    \<lparr>type = js ''text'',
                     text = js (''You can use the '' @ [CHR 0x27] @ ''@add'' @ [CHR 0x27] @
                                '' tool directly for future calculations.'')\<rparr>]\<rparr>))
              (\<lambda>err. Inr \<lparr>content =
                   [\<lparr>type = js ''text'', text = js ''Error: '' @ message err\<rparr>,
                    \<lparr>type = js ''text'',
                     text = js (''Please ensure your expression is like '' @ [CHR 0x27] @
                                ''5+10+15'' @ [CHR 0x27] @ ''.'')\<rparr>]\<rparr>)
          else Inr \<lparr>content = [\<lparr>type = js ''text'', text = usage_reminder\<rparr>]\<rparr>
      | None \<Rightarrow> Inr \<lparr>content = [\<lparr>type = js ''text'', text = usage_reminder\<rparr>]\<rparr>)"

definition guidedAdditionHelp :: "jsstring option \<Rightarrow> envelope result" where
  "guidedAdditionHelp = guidedAdditionHelp_with addExpression"

section \<open>The remote search client\<close>

subsection \<open>UTF-8, percent-encoding and base64\<close>

type_synonym byte = "8 word"

definition is_lead :: "code_unit \<Rightarrow> bool" where
  "is_lead c \<longleftrightarrow> 0xD800 \<le> c \<and> c \<le> 0xDBFF"

definition is_trail :: "code_unit \<Rightarrow> bool" where
  "is_trail c \<longleftrightarrow> 0xDC00 \<le> c \<and> c \<le> 0xDFFF"

text \<open>The code point of a surrogate pair.\<close>

definition pair_code_point :: "code_unit \<Rightarrow> code_unit \<Rightarrow> nat" where
  "pair_code_point c d = (unat c - 0xD800) * 0x400 + (unat d - 0xDC00) + 0x10000"

definition utf8 :: "nat \<Rightarrow> byte list" where
  "utf8 cp =
     (if cp < 0x80 then [of_nat cp]
      else if cp < 0x800 then [of_nat (0xC0 + cp div 0x40), of_nat (0x80 + cp mod 0x40)]
      else if cp < 0x10000 then
        [of_nat (0xE0 + cp div 0x1000), of_nat (0x80 + cp div 0x40 mod 0x40),
         of_nat (0x80 + cp mod 0x40)]
      else
        [of_nat (0xF0 + cp div 0x40000), of_nat (0x80 + cp div 0x1000 mod 0x40),
         of_nat (0x80 + cp div 0x40 mod 0x40), of_nat (0x80 + cp mod 0x40)])"

text \<open>
  The characters \<open>encodeURIComponent\<close> leaves alone: letters, digits and
  \<open>- _ . ! ~ * ' ( )\<close>.
\<close>

definition is_unreserved :: "code_unit \<Rightarrow> bool" where
  "is_unreserved c \<longleftrightarrow>
     (0x41 \<le> c \<and> c \<le> 0x5A) \<or> (0x61 \<le> c \<and> c \<le> 0x7A) \<or> (0x30 \<le> c \<and> c \<le> 0x39)
     \<or> c \<in> {0x2D, 0x5F, 0x2E, 0x21, 0x7E, 0x2A, 0x27, 0x28, 0x29}"

definition hex_digit :: "nat \<Rightarrow> code_unit" where
  "hex_digit n = js ''0123456789ABCDEF'' ! n"

definition percent :: "byte \<Rightarrow> jsstring" where
  "percent b = [cu CHR ''%'', hex_digit (unat b div 16), hex_digit (unat b mod 16)]"

text \<open>
  \<open>encodeURIComponent\<close> throws a \<open>URIError\<close> on a surrogate that is not half of a
  pair; otherwise every other character becomes the percent-escapes of its UTF-8 bytes.
\<close>

definition uri_malformed :: jserror where
  "uri_malformed = URIError (js ''URI malformed'')"

fun encodeURIComponent :: "jsstring \<Rightarrow> jsstring result" where
  "encodeURIComponent [] = Inr []"
| "encodeURIComponent (c # cs) =
     (if is_unreserved c then then_do (encodeURIComponent cs) (\<lambda>r. Inr (c # r))
      else if is_trail c then Inl uri_malformed
      else if is_lead c then
        (case cs of
           [] \<Rightarrow> Inl uri_malformed
         | d # ds \<Rightarrow>
             if is_trail d
             then then_do (encodeURIComponent ds) (\<lambda>r.
                    Inr (concat (map percent (utf8 (pair_code_point c d))) @ r))
             else Inl uri_malformed)
      else then_do (encodeURIComponent cs) (\<lambda>r.
             Inr (concat (map percent (utf8 (unat c))) @ r)))"

text \<open>
  \<open>Buffer.from(string)\<close>: the UTF-8 bytes of the string, a lone surrogate replaced by
  U+FFFD.
\<close>

fun Buffer_from :: "jsstring \<Rightarrow> byte list" where
  "Buffer_from [] = []"
| "Buffer_from (c # cs) =
     (if is_lead c then
        (case cs of
           [] \<Rightarrow> utf8 0xFFFD
         | d # ds \<Rightarrow>
             if is_trail d then utf8 (pair_code_point c d) @ Buffer_from ds
             else utf8 0xFFFD @ Buffer_from cs)
      else if is_trail c then utf8 0xFFFD @ Buffer_from cs
      else utf8 (unat c) @ Buffer_from cs)"

definition base64_char :: "nat \<Rightarrow> code_unit" where
  "base64_char n =
     js ''ABCDEFGHIJKLMNOPQRSTUVWXYZabcdefghijklmnopqrstuvwxyz0123456789+/'' ! n"

text \<open>\<open>buffer.toString('base64')\<close>: three bytes to four characters, padded with \<open>=\<close>.\<close>

fun base64 :: "byte list \<Rightarrow> jsstring" where
  "base64 [] = []"
| "base64 [a] =
     [base64_char (unat a div 4), base64_char (unat a mod 4 * 16), cu CHR ''='', cu CHR ''='']"
| "base64 [a, b] =
     [base64_char (unat a div 4), base64_char (unat a mod 4 * 16 + unat b div 16),
      base64_char (unat b mod 16 * 4), cu CHR ''='']"
| "base64 (a # b # c # bs) =
     [base64_char (unat a div 4), base64_char (unat a mod 4 * 16 + unat b div 16),
      base64_char (unat b mod 16 * 4 + unat c div 64), base64_char (unat c mod 64)]
     @ base64 bs"

subsection \<open>The host: configuration, network, JSON\<close>

text \<open>
  What the client takes from its surroundings is a parameter of the model:
  \<open>process.env\<close>, the outcome of \<open>fetch\<close> for a request (a response, or a thrown
  error), and \<open>JSON.stringify\<close> with its indentation (0 for none). Parsed JSON values
  are of an arbitrary type \<open>'j\<close>; a response carries the outcome of its \<open>json()\<close>.
\<close>

record request =
  "method" :: jsstring
  url :: jsstring
  headers :: "(jsstring \<times> jsstring) list"

record 'j response =
  status :: nat
  statusText :: jsstring
  json :: "'j result"

definition ok :: "'j response \<Rightarrow> bool" where
  "ok r \<longleftrightarrow> 200 \<le> status r \<and> status r \<le> 299"

record 'j host =
  env :: "jsstring \<rightharpoonup> jsstring"
  fetch :: "request \<Rightarrow> 'j response result"
  JSON_stringify :: "'j \<Rightarrow> nat \<Rightarrow> jsstring"

text \<open>An effectful computation: the requests it issued, in order, and its outcome.\<close>

type_synonym 'a io = "request list \<times> 'a result"

text \<open>A value in a template literal: \<open>undefined\<close> prints as its name.\<close>

definition template :: "jsstring option \<Rightarrow> jsstring" where
  "template v = (case v of None \<Rightarrow> js ''undefined'' | Some s \<Rightarrow> s)"

definition truthy :: "jsstring option \<Rightarrow> bool" where
  "truthy v \<longleftrightarrow> (case v of None \<Rightarrow> False | Some s \<Rightarrow> s \<noteq> [])"

definition search_url :: "jsstring \<Rightarrow> jsstring" where
  "search_url encodedQuery =
     js ''https://api-su2.highspot.com/v1.0/search/items?query-string='' @ encodedQuery @
     js ''&start=0&limit=10&sortby=relevancy''"

definition search_request :: "jsstring \<Rightarrow> jsstring \<Rightarrow> request" where
  "search_request target authString =
     \<lparr>method = js ''GET'', url = target,
      headers = [(js ''accept'', js ''application/json''),
                 (js ''Authorization'', js ''Basic '' @ authString)]\<rparr>"

definition api_error :: "'j response \<Rightarrow> jserror" where
  "api_error response =
     Error (js ''Highspot API error: '' @ dec_digits (int (status response)) @ js '' '' @
            statusText response)"

definition not_configured :: jserror where
  "not_configured = Error (js
     (''Highspot username or password not configured in environment variables '' @
      ''(HIGHSPOT_USERNAME, HIGHSPOT_PASSWORD).''))"

subsection \<open>\<open>searchHighspot\<close>\<close>

text \<open>The entry file with both search prompts: credentials are checked before the request.\<close>

definition searchHighspot :: "'j host \<Rightarrow> jsstring \<Rightarrow> 'j io" where
  "searchHighspot h query =
     (case encodeURIComponent query of
        Inl err \<Rightarrow> ([], Inl err)
      | Inr encodedQuery \<Rightarrow>
          let url = search_url encodedQuery;
              username = env h (js ''HIGHSPOT_USERNAME'');
              password = env h (js ''HIGHSPOT_PASSWORD'')
          in if \<not> truthy username \<or> \<not> truthy password then ([], Inl not_configured)
             else
               let authString =
                     base64 (Buffer_from (template username @ js '':'' @ template password));
                   req = search_request url authString
               in ([req],
                   (case fetch h req of
                      Inl err \<Rightarrow> Inl err
                    | Inr response \<Rightarrow>
                        if \<not> ok response then Inl (api_error response)
                        else json response)))"

text \<open>src/index.js: the same client without the check.\<close>

definition searchHighspot_src :: "'j host \<Rightarrow> jsstring \<Rightarrow> 'j io" where
  "searchHighspot_src h query =
     (case encodeURIComponent query of
        Inl err \<Rightarrow> ([], Inl err)
      | Inr encodedQuery \<Rightarrow>
          let url = search_url encodedQuery;
              username = env h (js ''HIGHSPOT_USERNAME'');
              password = env h (js ''HIGHSPOT_PASSWORD'');
              authString =
                base64 (Buffer_from (template username @ js '':'' @ template password));
              req = search_request url authString
          in ([req],
              (case fetch h req of
                 Inl err \<Rightarrow> Inl err
               | Inr response \<Rightarrow>
                   if \<not> ok response then Inl (api_error response)
                   else json response)))"

subsection \<open>The search handlers\<close>

text \<open>Tool \<open>searchHighspot\<close> of src/index.js: \<open>JSON.stringify(results)\<close>.\<close>

definition searchHighspot_tool_src :: "'j host \<Rightarrow> jsstring \<Rightarrow> envelope io" where
  "searchHighspot_tool_src h query =
     (let (reqs, outcome) = searchHighspot_src h query
      in (reqs,
          try_catch
            (then_do outcome (\<lambda>results.
               Inr \<lparr>content = [\<lparr>type = js ''text'', text = JSON_stringify h results 0\<rparr>]\<rparr>))
            (\<lambda>err. Inr \<lparr>content = [\<lparr>type = js ''text'', text = message err\<rparr>]\<rparr>)))"

text \<open>Tool \<open>searchHighspot\<close> of the other entry file: \<open>JSON.stringify(results, null, 2)\<close>.\<close>

definition searchHighspot_tool :: "'j host \<Rightarrow> jsstring \<Rightarrow> envelope io" where
  "searchHighspot_tool h query =
     (let (reqs, outcome) = searchHighspot h query
      in (reqs,
          try_catch
            (then_do outcome (\<lambda>results.
               Inr \<lparr>content = [\<lparr>type = js ''text'', text = JSON_stringify h results 2\<rparr>]\<rparr>))
            (\<lambda>err. Inr \<lparr>content = [\<lparr>type = js ''text'', text = message err\<rparr>]\<rparr>)))"

text \<open>Prompt \<open>search_highspot_prompt\<close>; its argument is \<open>args.query\<close>.\<close>

definition search_highspot_prompt :: "'j host \<Rightarrow> jsstring \<Rightarrow> envelope io" where
  "search_highspot_prompt h query =
     (let (reqs, outcome) = searchHighspot h query
      in (reqs,
          try_catch
            (then_do outcome (\<lambda>results.
               Inr \<lparr>content =
                 [\<lparr>type = js ''text'',
                   text = js ''Okay, I searched Highspot for '' @ [apostrophe] @ query @
                          [apostrophe] @ js ''.''\<rparr>,
                  \<lparr>type = js ''text'', text = JSON_stringify h results 2\<rparr>]\<rparr>))
            (\<lambda>err. Inr \<lparr>content =
                 [\<lparr>type = js ''text'',
                   text = js ''I encountered an issue searching Highspot: '' @ message err\<rparr>]\<rparr>)))"

section \<open>The operation registry and the two entry files\<close>

text \<open>
  Modelled from the spec: \<open>McpServer\<close> comes from the SDK and is not part of the
  repository. Following the spec's section on the registry, \<open>register\<close> adds a
  descriptor and fails with \<open>DuplicateNameError\<close> if the name already exists;
  \<open>invoke\<close> fails with \<open>UnknownOperationError\<close> if no descriptor matches, validates the
  argument against the schema (\<open>ValidationError\<close> on mismatch) and then calls the
  handler. Every schema of the program takes one string: required (\<open>z.string()\<close>),
  required and non-empty (\<open>z.string().min(1)\<close>) or optional
  (\<open>z.string().optional()\<close>). Descriptions are not modelled.
\<close>

datatype registry_error =
    DuplicateNameError jsstring
  | UnknownOperationError jsstring
  | ValidationError

datatype 'j handler =
    Required "'j host \<Rightarrow> jsstring \<Rightarrow> envelope io"
  | NonEmpty "'j host \<Rightarrow> jsstring \<Rightarrow> envelope io"
  | Optional "'j host \<Rightarrow> jsstring option \<Rightarrow> envelope io"

record 'j descriptor =
  name :: jsstring
  handler :: "'j handler"

record 'j server =
  tools :: "'j descriptor list"
  prompts :: "'j descriptor list"

definition register ::
    "'j descriptor \<Rightarrow> 'j descriptor list \<Rightarrow> registry_error + 'j descriptor list" where
  "register d registry =
     (if name d \<in> set (map name registry) then Inl (DuplicateNameError (name d))
      else Inr (registry @ [d]))"

definition server_tool ::
    "jsstring \<Rightarrow> 'j handler \<Rightarrow> 'j server \<Rightarrow> registry_error + 'j server" where
  "server_tool nm cb srv =
     then_do (register \<lparr>name = nm, handler = cb\<rparr> (tools srv)) (\<lambda>r. Inr (srv\<lparr>tools := r\<rparr>))"

definition server_prompt ::
    "jsstring \<Rightarrow> 'j handler \<Rightarrow> 'j server \<Rightarrow> registry_error + 'j server" where
  "server_prompt nm cb srv =
     then_do (register \<lparr>name = nm, handler = cb\<rparr> (prompts srv)) (\<lambda>r. Inr (srv\<lparr>prompts := r\<rparr>))"

definition invoke ::
    "'j descriptor list \<Rightarrow> jsstring \<Rightarrow> 'j host \<Rightarrow> jsstring option
      \<Rightarrow> registry_error + envelope io" where
  "invoke registry nm h arg =
     (case find (\<lambda>d. name d = nm) registry of
        None \<Rightarrow> Inl (UnknownOperationError nm)
      | Some d \<Rightarrow>
          (case handler d of
             Required cb \<Rightarrow> (case arg of None \<Rightarrow> Inl ValidationError | Some a \<Rightarrow> Inr (cb h a))
           | NonEmpty cb \<Rightarrow>
               (case arg of
                  None \<Rightarrow> Inl ValidationError
                | Some a \<Rightarrow> if a = [] then Inl ValidationError else Inr (cb h a))
           | Optional cb \<Rightarrow> Inr (cb h arg)))"

text \<open>A handler that issues no request.\<close>

definition no_io :: "('a \<Rightarrow> envelope result) \<Rightarrow> 'j host \<Rightarrow> 'a \<Rightarrow> envelope io" where
  "no_io cb h a = ([], cb a)"

text \<open>The registrations of a file run in order, from the empty server.\<close>

definition startup ::
    "('j server \<Rightarrow> registry_error + 'j server) list \<Rightarrow> registry_error + 'j server" where
  "startup registrations = foldl then_do (Inr \<lparr>tools = [], prompts = []\<rparr>) registrations"

text \<open>src/index.js, the server named "Number Addition".\<close>

definition number_addition :: "registry_error + 'j server" where
  "number_addition = startup
     [server_tool (js ''add'') (Required (no_io add_tool)),
      server_tool (js ''searchHighspot'') (Required searchHighspot_tool_src),
      server_prompt (js ''requestExpressionForAddition'')
        (NonEmpty (no_io requestExpressionForAddition)),
      server_prompt (js ''guidedAdditionHelp'') (Optional (no_io guidedAdditionHelp))]"

text \<open>The other entry file, the server named "Number Addition & Highspot Search".\<close>

definition number_addition_highspot_search :: "registry_error + 'j server" where
  "number_addition_highspot_search = startup
     [server_tool (js ''mathAdditionExample'') (Required (no_io mathAdditionExample_tool)),
      server_tool (js ''searchHighspot'') (Required searchHighspot_tool),
      server_prompt (js ''math_addition_example_prompt'')
        (Required (no_io math_addition_example_prompt)),
      server_prompt (js ''search_highspot_prompt'') (Required search_highspot_prompt),
      server_prompt (js ''requestExpressionForAddition'')
        (NonEmpty (no_io requestExpressionForAddition)),
      server_prompt (js ''guidedAdditionHelp'') (Optional (no_io guidedAdditionHelp))]"

definition tool_names :: "registry_error + 'j server \<Rightarrow> registry_error + jsstring list" where
  "tool_names srv = then_do srv (\<lambda>s. Inr (map name (tools s)))"

definition prompt_names :: "registry_error + 'j server \<Rightarrow> registry_error + jsstring list" where
  "prompt_names srv = then_do srv (\<lambda>s. Inr (map name (prompts s)))"

definition invoke_tool ::
    "registry_error + 'j server \<Rightarrow> jsstring \<Rightarrow> 'j host \<Rightarrow> jsstring option
      \<Rightarrow> registry_error + envelope io" where
  "invoke_tool srv nm h arg = then_do srv (\<lambda>s. invoke (tools s) nm h arg)"

definition invoke_prompt ::
    "registry_error + 'j server \<Rightarrow> jsstring \<Rightarrow> 'j host \<Rightarrow> jsstring option
      \<Rightarrow> registry_error + envelope io" where
  "invoke_prompt srv nm h arg = then_do srv (\<lambda>s. invoke (prompts s) nm h arg)"

section \<open>Well-formed strings and two hosts to run the client on\<close>

text \<open>\<open>String.prototype.isWellFormed\<close>: no surrogate outside a pair.\<close>

fun isWellFormed :: "jsstring \<Rightarrow> bool" where
  "isWellFormed [] = True"
| "isWellFormed (c # cs) =
     (if is_lead c then (case cs of [] \<Rightarrow> False | d # ds \<Rightarrow> is_trail d \<and> isWellFormed ds)
      else if is_trail c then False
      else isWellFormed cs)"

text \<open>
  A host without credentials, whose network answers every request with 401, and a host
  with both credentials, whose network knows one query and answers 404 to the others.
  Their parsed JSON values are of type \<open>unit\<close>.
\<close>

definition unconfigured_host :: "unit host" where
  "unconfigured_host =
     \<lparr>env = Map.empty,
      fetch = (\<lambda>req. Inr \<lparr>status = 401, statusText = js ''Unauthorized'',
                             json = Inr ()\<rparr>),
      JSON_stringify = (\<lambda>v indent. js ''null'')\<rparr>"

definition configured_host :: "unit host" where
  "configured_host =
     \<lparr>env = [js ''HIGHSPOT_USERNAME'' \<mapsto> js ''alice'', js ''HIGHSPOT_PASSWORD'' \<mapsto> js ''secret''],
      fetch = (\<lambda>req. if url req = search_url (js ''sales%20deck'')
                      then Inr \<lparr>status = 200, statusText = js ''OK'', json = Inr ()\<rparr>
                      else Inr \<lparr>status = 404, statusText = js ''Not Found'',
                                 json = Inl (SyntaxError (js ''Unexpected end of JSON input''))\<rparr>),
      JSON_stringify = (\<lambda>v indent. js ''null'')\<rparr>"

text \<open>
  Names for the two halves of the client, for the proofs: the request it builds from the
  encoded query, and how it reads the network's answer to a request.
\<close>

definition issued :: "'j host \<Rightarrow> jsstring \<Rightarrow> request" where
  "issued h e = search_request (search_url e)
     (base64 (Buffer_from (template (env h (js ''HIGHSPOT_USERNAME'')) @ js '':'' @
                           template (env h (js ''HIGHSPOT_PASSWORD'')))))"

definition answered :: "'j host \<Rightarrow> request \<Rightarrow> 'j result" where
  "answered h r = (case fetch h r of
                     Inl err \<Rightarrow> Inl err
                   | Inr response \<Rightarrow> if \<not> ok response then Inl (api_error response)
                                     else json response)"

section \<open>Integers up to \<open>2^53\<close> are exact\<close>

lemma bit_length_pos: "0 < n \<Longrightarrow> 0 < bit_length n"
  by (subst bit_length.simps) simp

lemma bit_length_bounds:
  "0 < n \<Longrightarrow> 2 ^ (bit_length n - 1) \<le> n \<and> n < 2 ^ bit_length n"
proof (induction n rule: bit_length.induct)
  case (1 n)
  show ?case
  proof (cases "n = 1")
    case True
    then show ?thesis by (simp add: bit_length.simps)
  next
    case False
    with "1.prems" have h: "0 < n div 2" by simp
    from "1.IH" "1.prems" h
    have ih: "2 ^ (bit_length (n div 2) - 1) \<le> n div 2 \<and> n div 2 < 2 ^ bit_length (n div 2)"
      by simp
    have bl: "bit_length n = Suc (bit_length (n div 2))"
      using "1.prems" by (subst bit_length.simps) simp
    obtain m where m: "bit_length (n div 2) = Suc m"
      using bit_length_pos [OF h] by (cases "bit_length (n div 2)") auto
    from ih m have "2 ^ m \<le> n div 2" "n div 2 < 2 * 2 ^ m" by simp_all
    then have "2 * 2 ^ m \<le> n" "n < 2 * (2 * 2 ^ m)" by linarith+
    then show ?thesis by (simp add: bl m)
  qed
qed

lemma round_half_even_of_int: "round_half_even (of_int k) = k"
  by (simp add: round_half_even_def)

lemma roundToDouble_of_int:
  assumes "\<bar>n\<bar> < 2 ^ 53"
  shows "roundToDouble (of_int n) = Fin (of_int n)"
proof (cases "n = 0")
  case True
  then show ?thesis by (simp add: roundToDouble_def)
next
  case False
  define a where "a = \<bar>n\<bar>"
  have a: "0 < a" "a < 2 ^ 53" using False assms by (simp_all add: a_def)
  define b where "b = bit_length a"
  from bit_length_bounds [OF a(1)] have bb: "2 ^ (b - 1) \<le> a" "a < 2 ^ b"
    by (simp_all add: b_def)
  have bpos: "0 < b" using bit_length_pos [OF a(1)] by (simp add: b_def)
  have "(2::int) ^ (b - 1) < 2 ^ 53" using bb(1) a(2) by linarith
  then have b53: "b - 1 < 53" by (simp only: power_strict_increasing_iff) 
  define k where "k = 53 - b"
  have il: "ilog2 (of_int a) = int b - 1"
    using a(1) by (simp add: ilog2_def b_def)
  have mx: "max (ilog2 (of_int a)) (- 1022) = int b - 1"
    using il bpos by simp
  have q: "pow_int 2 (int b - 1 - 52) = 1 / 2 ^ k"
  proof (cases "b = 53")
    case True
    then show ?thesis by (simp add: pow_int_def k_def)
  next
    case False
    with b53 bpos have "int b - 1 - 52 < 0" "nat (- (int b - 1 - 52)) = k"
      by (simp_all add: k_def)
    then show ?thesis by (simp add: pow_int_def)
  qed
  have dv: "(of_int a :: rat) / (1 / 2 ^ k) = of_int (a * 2 ^ k)" by simp
  have v: "of_int (round_half_even (of_int a / (1 / 2 ^ k))) * (1 / 2 ^ k) = (of_int a :: rat)"
    by (simp only: dv round_half_even_of_int) simp
  have small: "\<not> (2::rat) ^ 1024 \<le> of_int a"
  proof -
    have "(of_int a :: rat) < of_int (2 ^ 53)" using a(2) by (simp only: of_int_less_iff)
    also have "\<dots> < 2 ^ 1024" by simp
    finally show ?thesis by simp
  qed
  have abs_eq: "\<bar>of_int n :: rat\<bar> = of_int a" by (simp add: a_def)
  have sgn: "(if (of_int n :: rat) < 0 then - of_int a else of_int a) = (of_int n :: rat)"
    by (simp add: a_def)
  have nz: "(of_int n :: rat) \<noteq> 0" using False by simp
  have "roundToDouble (of_int n) =
          (if (2::rat) ^ 1024 \<le> of_int a
           then (if (of_int n :: rat) < 0 then NegInfinity else PosInfinity)
           else Fin (if (of_int n :: rat) < 0 then - of_int a else of_int a))"
    unfolding roundToDouble_def Let_def abs_eq mx q v by (simp only: nz if_False)
  then show ?thesis by (simp only: small sgn if_False)
qed

lemma roundToDouble_numeral:
  "(numeral k :: int) < 2 ^ 53 \<Longrightarrow> roundToDouble (numeral k) = Fin (numeral k)"
  using roundToDouble_of_int [of "numeral k"] by simp

lemma roundToDouble_one: "roundToDouble 1 = Fin 1"
  using roundToDouble_of_int [of 1] by simp

lemma roundToDouble_zero: "roundToDouble 0 = Fin 0"
  by (simp add: roundToDouble_def)

lemma floor_rat_numeral:
  "\<lfloor>(numeral a :: rat) / numeral b\<rfloor> = numeral a div numeral b"
  using floor_divide_of_int_eq [of "numeral a" "numeral b", where ?'a = rat] by simp

text \<open>Sums of integers are exact while every partial sum stays below \<open>2^53\<close>.\<close>

lemma js_add_int_exact:
  assumes "\<bar>a + x\<bar> < 2 ^ 53"
  shows "js_add (Fin (of_int a)) (Fin (of_int x)) = Fin (of_int (a + x))"
proof -
  have "js_add (Fin (of_int a)) (Fin (of_int x)) = roundToDouble (of_int a + of_int x)"
    by (simp only: js_add.simps)
  also have "\<dots> = roundToDouble (of_int (a + x))" by (simp only: of_int_add)
  also have "\<dots> = Fin (of_int (a + x))" using assms by (rule roundToDouble_of_int)
  finally show ?thesis .
qed

lemma foldl_js_add_exact:
  "\<forall>i \<le> length xs. \<bar>a + sum_list (take i xs)\<bar> < 2 ^ 53 \<Longrightarrow>
   foldl js_add (Fin (of_int a)) (map (\<lambda>x. Fin (of_int x)) xs) = Fin (of_int (a + sum_list xs))"
proof (induction xs arbitrary: a)
  case Nil
  then show ?case by simp
next
  case (Cons x xs)
  have "1 \<le> length (x # xs)" by simp
  with Cons.prems have "\<bar>a + sum_list (take 1 (x # xs))\<bar> < 2 ^ 53" by blast
  then have first: "\<bar>a + x\<bar> < 2 ^ 53" by simp
  have rest: "\<forall>i \<le> length xs. \<bar>(a + x) + sum_list (take i xs)\<bar> < 2 ^ 53"
  proof (intro allI impI)
    fix i assume "i \<le> length xs"
    then have "Suc i \<le> length (x # xs)" by simp
    with Cons.prems have "\<bar>a + sum_list (take (Suc i) (x # xs))\<bar> < 2 ^ 53" by blast
    then show "\<bar>(a + x) + sum_list (take i xs)\<bar> < 2 ^ 53" by (simp add: add.assoc)
  qed
  have "foldl js_add (Fin (of_int a)) (map (\<lambda>x. Fin (of_int x)) (x # xs)) =
        foldl js_add (js_add (Fin (of_int a)) (Fin (of_int x))) (map (\<lambda>x. Fin (of_int x)) xs)"
    by simp
  also have "\<dots> = foldl js_add (Fin (of_int (a + x))) (map (\<lambda>x. Fin (of_int x)) xs)"
    by (simp only: js_add_int_exact [OF first])
  also have "\<dots> = Fin (of_int ((a + x) + sum_list xs))" by (rule Cons.IH [OF rest])
  also have "\<dots> = Fin (of_int (a + sum_list (x # xs)))" by (simp add: add.assoc)
  finally show ?case .
qed

section \<open>Evaluation on concrete inputs\<close>

lemmas string_eval = js_def cu_def apostrophe_def

lemmas number_eval =
  Number_def trim_def is_ws_def parse_non_decimal_def parse_decimal_def
  parse_unsigned_decimal_def parse_exponent_def is_digit_def is_digits_def digit_value_def
  digits_value_def pow_int_def roundToDouble_numeral roundToDouble_one roundToDouble_zero Let_def

lemmas tostring_eval =
  positive_to_string_def shortest_digits_def digit_candidates_def closer_def ilog10_def
  dec_length.simps dec_digits.simps pow_int_def roundToDouble_numeral roundToDouble_one
  roundToDouble_zero floor_rat_numeral Let_def
  upt_conv_Cons

lemmas registry_eval =
  startup_def server_tool_def server_prompt_def register_def then_do_def tool_names_def
  prompt_names_def invoke_tool_def invoke_prompt_def invoke_def no_io_def

lemmas search_eval =
  searchHighspot_def searchHighspot_src_def search_url_def search_request_def template_def
  truthy_def is_unreserved_def is_lead_def is_trail_def utf8_def percent_def hex_digit_def
  base64_char_def pair_code_point_def then_do_def Let_def

lemma split_nonempty: "split sep s \<noteq> []"
  by (induction s) (simp_all add: Let_def)

section \<open>The evaluator\<close>

text \<open>
  Claim C3. If the input splits on \<open>+\<close> into at least two parts, and every part is
  non-empty after trimming and parses as a number, then \<open>addExpression\<close> returns the sum
  of the parsed parts, added from left to right in double precision. Where the parts
  are integers whose partial sums stay below \<open>2^53\<close>, that is their exact sum.
\<close>

theorem addExpression_sum:
  assumes "2 \<le> length (split (cu CHR ''+'') s)"
    and "\<forall>p \<in> set (split (cu CHR ''+'') s). trim p \<noteq> [] \<and> \<not> isNaN (Number (trim p))"
  shows "addExpression s =
           Inr (foldl js_add (Fin 0) (map (\<lambda>p. Number (trim p)) (split (cu CHR ''+'') s)))
         \<and> (\<forall>xs. map (\<lambda>p. Number (trim p)) (split (cu CHR ''+'') s) = map (\<lambda>x. Fin (of_int x)) xs
                  \<and> (\<forall>i \<le> length xs. \<bar>sum_list (take i xs)\<bar> < 2 ^ 53)
               \<longrightarrow> addExpression s = Inr (Fin (of_int (sum_list xs))))"
proof -
  have general: "addExpression s =
      Inr (foldl js_add (Fin 0) (map (\<lambda>p. Number (trim p)) (split (cu CHR ''+'') s)))"
    using assms by (auto simp: addExpression_def Let_def list_ex_iff comp_def)
  have exact: "addExpression s = Inr (Fin (of_int (sum_list xs)))"
    if parts: "map (\<lambda>p. Number (trim p)) (split (cu CHR ''+'') s) = map (\<lambda>x. Fin (of_int x)) xs"
      and bound: "\<forall>i \<le> length xs. \<bar>sum_list (take i xs)\<bar> < 2 ^ 53" for xs
  proof -
    from bound have "\<forall>i \<le> length xs. \<bar>0 + sum_list (take i xs)\<bar> < 2 ^ 53" by simp
    from foldl_js_add_exact [OF this]
    have "foldl js_add (Fin 0) (map (\<lambda>x. Fin (of_int x)) xs) = Fin (of_int (sum_list xs))"
      by simp
    with general parts show ?thesis by simp
  qed
  from general exact show ?thesis by blast
qed

theorem addExpression_sum_witness:
  "addExpression (js ''7+9+2'') = Inr (Fin 18)"
proof -
  have parts: "split (cu CHR ''+'') (js ''7+9+2'') = [js ''7'', js ''9'', js ''2'']"
    by (simp add: string_eval)
  have h1: "2 \<le> length (split (cu CHR ''+'') (js ''7+9+2''))"
    by (simp add: parts)
  have h2: "\<forall>p \<in> set (split (cu CHR ''+'') (js ''7+9+2'')).
              trim p \<noteq> [] \<and> \<not> isNaN (Number (trim p))"
    by (simp add: parts) (simp add: string_eval number_eval isNaN_def)
  have h3: "map (\<lambda>p. Number (trim p)) (split (cu CHR ''+'') (js ''7+9+2'')) =
            map (\<lambda>x. Fin (of_int x)) [7, 9, 2]"
    by (simp add: parts) (simp add: string_eval number_eval)
  have h4: "\<forall>i \<le> length [7, 9, 2 :: int]. \<bar>sum_list (take i [7, 9, 2 :: int])\<bar> < 2 ^ 53"
  proof (intro allI impI)
    fix i :: nat
    assume "i \<le> length [7, 9, 2 :: int]"
    then have "i = 0 \<or> i = 1 \<or> i = 2 \<or> i = 3" by auto
    then show "\<bar>sum_list (take i [7, 9, 2 :: int])\<bar> < 2 ^ 53"
      by (elim disjE) (simp_all add: numeral_2_eq_2 numeral_3_eq_3)
  qed
  from addExpression_sum [OF h1 h2] h3 h4
  have "addExpression (js ''7+9+2'') = Inr (Fin (of_int (sum_list [7, 9, 2])))"
    by blast
  then show ?thesis by simp
qed

text \<open>
  Claim C4. If splitting on \<open>+\<close> yields fewer than two parts, or some part is empty
  after trimming, or some part does not parse as a number, then \<open>addExpression\<close> fails
  with the invalid-expression error.
\<close>

theorem addExpression_invalid:
  assumes "length (split (cu CHR ''+'') s) < 2
           \<or> (\<exists>p \<in> set (split (cu CHR ''+'') s). trim p = [] \<or> isNaN (Number (trim p)))"
  shows "addExpression s = Inl (Error invalid_expression_message)"
  using assms by (auto simp: addExpression_def Let_def list_ex_iff)

theorem addExpression_invalid_witness:
  "addExpression (js ''5'') = Inl (Error invalid_expression_message)
   \<and> addExpression (js ''5++3'') = Inl (Error invalid_expression_message)
   \<and> addExpression (js ''+5+3'') = Inl (Error invalid_expression_message)
   \<and> addExpression (js ''5+3+'') = Inl (Error invalid_expression_message)
   \<and> addExpression (js ''5+a+3'') = Inl (Error invalid_expression_message)"
proof -
  have "length (split (cu CHR ''+'') (js ''5'')) < 2"
    by (simp add: string_eval)
  then have a: "addExpression (js ''5'') = Inl (Error invalid_expression_message)"
    using addExpression_invalid [of "js ''5''"] by blast
  have "\<exists>p \<in> set (split (cu CHR ''+'') (js ''5++3'')). trim p = [] \<or> isNaN (Number (trim p))"
    by (simp add: string_eval trim_def)
  then have b: "addExpression (js ''5++3'') = Inl (Error invalid_expression_message)"
    using addExpression_invalid [of "js ''5++3''"] by blast
  have "\<exists>p \<in> set (split (cu CHR ''+'') (js ''+5+3'')). trim p = [] \<or> isNaN (Number (trim p))"
    by (simp add: string_eval trim_def)
  then have c: "addExpression (js ''+5+3'') = Inl (Error invalid_expression_message)"
    using addExpression_invalid [of "js ''+5+3''"] by blast
  have "\<exists>p \<in> set (split (cu CHR ''+'') (js ''5+3+'')). trim p = [] \<or> isNaN (Number (trim p))"
    by (simp add: string_eval trim_def)
  then have d: "addExpression (js ''5+3+'') = Inl (Error invalid_expression_message)"
    using addExpression_invalid [of "js ''5+3+''"] by blast
  have "isNaN (Number (trim (js ''a'')))"
    by (simp add: string_eval number_eval isNaN_def)
  then have "\<exists>p \<in> set (split (cu CHR ''+'') (js ''5+a+3'')). trim p = [] \<or> isNaN (Number (trim p))"
    by (simp add: string_eval)
  then have e: "addExpression (js ''5+a+3'') = Inl (Error invalid_expression_message)"
    using addExpression_invalid [of "js ''5+a+3''"] by blast
  from a b c d e show ?thesis by simp
qed

section \<open>The handlers of the evaluator\<close>

lemma add_tool_outcome:
  "add_tool e =
     (case addExpression e of
        Inl err \<Rightarrow> Inr \<lparr>content = [\<lparr>type = js ''text'', text = message err\<rparr>]\<rparr>
      | Inr v \<Rightarrow> Inr \<lparr>content = [\<lparr>type = js ''text'', text = ToString v\<rparr>]\<rparr>)"
  by (simp add: add_tool_def try_catch_def then_do_def split: sum.splits)

lemma invoke_add: "invoke_tool number_addition (js ''add'') h (Some e) = Inr ([], add_tool e)"
  by (simp add: number_addition_def registry_eval string_eval)

lemma addExpression_2_3_4: "addExpression (js ''2+3+4'') = Inr (Fin 9)"
  by (simp add: addExpression_def isNaN_def string_eval number_eval)

lemma addExpression_2_plus_plus_4:
  "addExpression (js ''2++4'') = Inl (Error invalid_expression_message)"
  by (simp add: addExpression_def string_eval trim_def)

lemma ToString_9: "ToString (Fin 9) = js ''9''"
  by (simp add: string_eval tostring_eval)

text \<open>
  Claim C7. Invoking tool \<open>add\<close> with \<open>expression = "2+3+4"\<close> returns an envelope with
  exactly one text block, \<open>"9"\<close>; with \<open>expression = "2++4"\<close>, an envelope with exactly
  one text block, the invalid-expression message. Neither issues a request.
\<close>

theorem add_end_to_end:
  "invoke_tool number_addition (js ''add'') h (Some (js ''2+3+4'')) =
     Inr ([], Inr \<lparr>content = [\<lparr>type = js ''text'', text = js ''9''\<rparr>]\<rparr>)
   \<and> invoke_tool number_addition (js ''add'') h (Some (js ''2++4'')) =
     Inr ([], Inr \<lparr>content = [\<lparr>type = js ''text'', text = invalid_expression_message\<rparr>]\<rparr>)"
  by (simp only: invoke_add add_tool_outcome addExpression_2_3_4 addExpression_2_plus_plus_4
      ToString_9 sum.case jserror.sel simp_thms)

theorem add_end_to_end_witness:
  "invoke_tool number_addition (js ''add'') unconfigured_host (Some (js ''2+3+4'')) =
     Inr ([], Inr \<lparr>content = [\<lparr>type = js ''text'', text = js ''9''\<rparr>]\<rparr>)"
  using add_end_to_end [of unconfigured_host] by (rule conjunct1)

text \<open>
  Claim C10. When the argument of \<open>guidedAdditionHelp\<close> is absent, empty or only white
  space, the handler returns exactly one text block, the usage reminder, whatever
  evaluator it was given: \<open>addExpression\<close> is not called on that path.
\<close>

theorem guidedAdditionHelp_blank:
  assumes "arg = None \<or> (\<exists>e. arg = Some e \<and> trim e = [])"
  shows "guidedAdditionHelp_with evaluate arg =
           Inr \<lparr>content = [\<lparr>type = js ''text'', text = usage_reminder\<rparr>]\<rparr>
         \<and> guidedAdditionHelp arg =
           Inr \<lparr>content = [\<lparr>type = js ''text'', text = usage_reminder\<rparr>]\<rparr>"
  using assms by (auto simp: guidedAdditionHelp_def guidedAdditionHelp_with_def)

theorem guidedAdditionHelp_blank_witness:
  "guidedAdditionHelp None = Inr \<lparr>content = [\<lparr>type = js ''text'', text = usage_reminder\<rparr>]\<rparr>
   \<and> guidedAdditionHelp (Some []) =
       Inr \<lparr>content = [\<lparr>type = js ''text'', text = usage_reminder\<rparr>]\<rparr>
   \<and> guidedAdditionHelp (Some (js ''   '')) =
       Inr \<lparr>content = [\<lparr>type = js ''text'', text = usage_reminder\<rparr>]\<rparr>
   \<and> guidedAdditionHelp_with (\<lambda>e. Inl (Error (js ''called''))) (Some (js ''   '')) =
       Inr \<lparr>content = [\<lparr>type = js ''text'', text = usage_reminder\<rparr>]\<rparr>"
proof -
  have a: "(None :: jsstring option) = None \<or> (\<exists>e. (None :: jsstring option) = Some e \<and> trim e = [])"
    by simp
  have b: "Some [] = (None :: jsstring option) \<or> (\<exists>e. Some [] = Some e \<and> trim e = [])"
    by (simp add: trim_def)
  have c: "Some (js ''   '') = (None :: jsstring option)
           \<or> (\<exists>e. Some (js ''   '') = Some e \<and> trim e = [])"
    by (simp add: trim_def is_ws_def string_eval)
  from guidedAdditionHelp_blank [OF a] guidedAdditionHelp_blank [OF b]
    guidedAdditionHelp_blank [OF c, of "\<lambda>e. Inl (Error (js ''called''))"]
  show ?thesis by simp
qed

section \<open>The registry\<close>

lemma number_addition_value:
  "number_addition =
     Inr \<lparr>tools = [\<lparr>name = js ''add'', handler = Required (no_io add_tool)\<rparr>,
                  \<lparr>name = js ''searchHighspot'', handler = Required searchHighspot_tool_src\<rparr>],
          prompts = [\<lparr>name = js ''requestExpressionForAddition'',
                      handler = NonEmpty (no_io requestExpressionForAddition)\<rparr>,
                     \<lparr>name = js ''guidedAdditionHelp'',
                      handler = Optional (no_io guidedAdditionHelp)\<rparr>]\<rparr>"
  by (simp add: number_addition_def startup_def server_tool_def server_prompt_def register_def
      then_do_def string_eval)

lemma number_addition_highspot_search_value:
  "number_addition_highspot_search =
     Inr \<lparr>tools = [\<lparr>name = js ''mathAdditionExample'',
                    handler = Required (no_io mathAdditionExample_tool)\<rparr>,
                  \<lparr>name = js ''searchHighspot'', handler = Required searchHighspot_tool\<rparr>],
          prompts = [\<lparr>name = js ''math_addition_example_prompt'',
                      handler = Required (no_io math_addition_example_prompt)\<rparr>,
                     \<lparr>name = js ''search_highspot_prompt'',
                      handler = Required search_highspot_prompt\<rparr>,
                     \<lparr>name = js ''requestExpressionForAddition'',
                      handler = NonEmpty (no_io requestExpressionForAddition)\<rparr>,
                     \<lparr>name = js ''guidedAdditionHelp'',
                      handler = Optional (no_io guidedAdditionHelp)\<rparr>]\<rparr>"
  by (simp add: number_addition_highspot_search_def startup_def server_tool_def
      server_prompt_def register_def then_do_def string_eval)

text \<open>A name is unknown to \<open>invoke\<close> exactly when no descriptor of the registry carries it.\<close>

lemma invoke_unknown_iff:
  "(invoke registry nm h arg = Inl (UnknownOperationError nm)) = (nm \<notin> set (map name registry))"
proof (cases "find (\<lambda>d. name d = nm) registry")
  case None
  then have "nm \<notin> set (map name registry)" by (auto simp: find_None_iff)
  with None show ?thesis by (simp add: invoke_def)
next
  case (Some d)
  then have "nm \<in> set (map name registry)" by (auto simp: find_Some_iff)
  moreover from Some have "invoke registry nm h arg \<noteq> Inl (UnknownOperationError nm)"
    by (cases "handler d"; cases arg) (simp_all add: invoke_def)
  ultimately show ?thesis by simp
qed

text \<open>
  Claim C9, as stated, fails: the registry of src/index.js holds two of the four prompts
  only; \<open>search_highspot_prompt\<close> and \<open>math_addition_example_prompt\<close> are unknown
  operations there.
\<close>

theorem registered_names_counterexample:
  "prompt_names (number_addition :: registry_error + unit server) =
     Inr [js ''requestExpressionForAddition'', js ''guidedAdditionHelp'']
   \<and> invoke_prompt number_addition (js ''search_highspot_prompt'') unconfigured_host
         (Some (js ''x'')) =
       Inl (UnknownOperationError (js ''search_highspot_prompt''))
   \<and> invoke_prompt number_addition (js ''math_addition_example_prompt'') unconfigured_host
         (Some (js ''2+3+4'')) =
       Inl (UnknownOperationError (js ''math_addition_example_prompt''))"
  by (simp add: number_addition_value prompt_names_def invoke_prompt_def then_do_def
      invoke_unknown_iff string_eval)

text \<open>
  Claim C9, amended. Each entry file registers its operations at start-up without a
  duplicate-name failure, every name once. The registry of src/index.js exposes exactly
  the tools \<open>add\<close> and \<open>searchHighspot\<close> and the prompts \<open>requestExpressionForAddition\<close>
  and \<open>guidedAdditionHelp\<close>; the registry of the other entry file exposes exactly the
  tools \<open>mathAdditionExample\<close> and \<open>searchHighspot\<close> and the prompts
  \<open>math_addition_example_prompt\<close>, \<open>search_highspot_prompt\<close>,
  \<open>requestExpressionForAddition\<close> and \<open>guidedAdditionHelp\<close>. Any other name is an unknown
  operation.
\<close>

theorem registered_names:
  "(\<exists>s. number_addition = Inr s
        \<and> map name (tools s) = [js ''add'', js ''searchHighspot'']
        \<and> map name (prompts s) =
            [js ''requestExpressionForAddition'', js ''guidedAdditionHelp'']
        \<and> distinct (map name (tools s)) \<and> distinct (map name (prompts s)))
   \<and> (\<exists>s. number_addition_highspot_search = Inr s
        \<and> map name (tools s) = [js ''mathAdditionExample'', js ''searchHighspot'']
        \<and> map name (prompts s) =
            [js ''math_addition_example_prompt'', js ''search_highspot_prompt'',
             js ''requestExpressionForAddition'', js ''guidedAdditionHelp'']
        \<and> distinct (map name (tools s)) \<and> distinct (map name (prompts s)))
   \<and> (invoke_tool number_addition nm h arg = Inl (UnknownOperationError nm)) =
       (nm \<notin> {js ''add'', js ''searchHighspot''})
   \<and> (invoke_prompt number_addition nm h arg = Inl (UnknownOperationError nm)) =
       (nm \<notin> {js ''requestExpressionForAddition'', js ''guidedAdditionHelp''})
   \<and> (invoke_tool number_addition_highspot_search nm h arg = Inl (UnknownOperationError nm)) =
       (nm \<notin> {js ''mathAdditionExample'', js ''searchHighspot''})
   \<and> (invoke_prompt number_addition_highspot_search nm h arg =
        Inl (UnknownOperationError nm)) =
       (nm \<notin> {js ''math_addition_example_prompt'', js ''search_highspot_prompt'',
               js ''requestExpressionForAddition'', js ''guidedAdditionHelp''})"
proof -
  have a: "\<exists>s. number_addition = Inr s
        \<and> map name (tools s) = [js ''add'', js ''searchHighspot'']
        \<and> map name (prompts s) =
            [js ''requestExpressionForAddition'', js ''guidedAdditionHelp'']
        \<and> distinct (map name (tools s)) \<and> distinct (map name (prompts s))"
    by (simp add: number_addition_value string_eval)
  have b: "\<exists>s. number_addition_highspot_search = Inr s
        \<and> map name (tools s) = [js ''mathAdditionExample'', js ''searchHighspot'']
        \<and> map name (prompts s) =
            [js ''math_addition_example_prompt'', js ''search_highspot_prompt'',
             js ''requestExpressionForAddition'', js ''guidedAdditionHelp'']
        \<and> distinct (map name (tools s)) \<and> distinct (map name (prompts s))"
    by (simp add: number_addition_highspot_search_value string_eval)
  have c: "(invoke_tool number_addition nm h arg = Inl (UnknownOperationError nm)) =
       (nm \<notin> {js ''add'', js ''searchHighspot''})"
    by (simp add: number_addition_value invoke_tool_def then_do_def invoke_unknown_iff)
  have d: "(invoke_prompt number_addition nm h arg = Inl (UnknownOperationError nm)) =
       (nm \<notin> {js ''requestExpressionForAddition'', js ''guidedAdditionHelp''})"
    by (simp add: number_addition_value invoke_prompt_def then_do_def invoke_unknown_iff)
  have e: "(invoke_tool number_addition_highspot_search nm h arg =
            Inl (UnknownOperationError nm)) =
       (nm \<notin> {js ''mathAdditionExample'', js ''searchHighspot''})"
    by (simp add: number_addition_highspot_search_value invoke_tool_def then_do_def
        invoke_unknown_iff)
  have f: "(invoke_prompt number_addition_highspot_search nm h arg =
        Inl (UnknownOperationError nm)) =
       (nm \<notin> {js ''math_addition_example_prompt'', js ''search_highspot_prompt'',
               js ''requestExpressionForAddition'', js ''guidedAdditionHelp''})"
    by (simp add: number_addition_highspot_search_value invoke_prompt_def then_do_def
        invoke_unknown_iff)
  from a b c d e f show ?thesis by (intro conjI)
qed

section \<open>The search client\<close>

subsection \<open>\<open>encodeURIComponent\<close> succeeds exactly on well-formed strings\<close>

lemma unreserved_ascii: "is_unreserved c \<Longrightarrow> c \<le> 0x7E"
  unfolding is_unreserved_def by (elim disjE conjE) (auto simp: word_le_nat_alt)

lemma unreserved_not_surrogate: "is_unreserved c \<Longrightarrow> \<not> is_lead c \<and> \<not> is_trail c"
proof -
  assume "is_unreserved c"
  then have "c \<le> 0x7E" by (rule unreserved_ascii)
  then have "\<not> 0xD800 \<le> c" "\<not> 0xDC00 \<le> c" by (simp_all add: word_le_nat_alt)
  then show ?thesis by (simp add: is_lead_def is_trail_def)
qed

lemma lead_not_trail: "is_lead c \<Longrightarrow> \<not> is_trail c"
  by (simp add: is_lead_def is_trail_def word_le_nat_alt)

lemma encodeURIComponent_wellformed:
  "isWellFormed q \<longleftrightarrow> (\<exists>e. encodeURIComponent q = Inr e)"
proof (induction q rule: isWellFormed.induct)
  case 1
  then show ?case by simp
next
  case (2 c cs)
  show ?case
  proof (cases "is_unreserved c")
    case True
    from unreserved_not_surrogate [OF True] have ns: "\<not> is_lead c" "\<not> is_trail c" by simp_all
    from 2(2) [OF ns] show ?thesis
      using True ns by (cases "encodeURIComponent cs") (simp_all add: then_do_def)
  next
    case unres: False
    show ?thesis
    proof (cases "is_lead c")
      case lead: True
      then have nt: "\<not> is_trail c" by (rule lead_not_trail)
      show ?thesis
      proof (cases cs)
        case Nil
        then show ?thesis using unres lead nt by (simp add: uri_malformed_def)
      next
        case (Cons d ds)
        show ?thesis
        proof (cases "is_trail d")
          case True
          from 2(1) [OF lead Cons] show ?thesis
            using unres lead nt Cons True
            by (cases "encodeURIComponent ds") (simp_all add: then_do_def)
        next
          case False
          then show ?thesis using unres lead nt Cons by (simp add: uri_malformed_def)
        qed
      qed
    next
      case nl: False
      show ?thesis
      proof (cases "is_trail c")
        case True
        then show ?thesis using unres nl by (simp add: uri_malformed_def)
      next
        case False
        from 2(2) [OF nl False] show ?thesis
          using unres nl False by (cases "encodeURIComponent cs") (simp_all add: then_do_def)
      qed
    qed
  qed
qed

subsection \<open>The two clients, by cases\<close>

lemma searchHighspot_src_unfold:
  "searchHighspot_src h q =
     (case encodeURIComponent q of
        Inl err \<Rightarrow> ([], Inl err)
      | Inr e \<Rightarrow> ([issued h e], answered h (issued h e)))"
  by (cases "encodeURIComponent q")
     (simp_all add: searchHighspot_src_def issued_def answered_def Let_def)

lemma searchHighspot_unfold:
  "searchHighspot h q =
     (case encodeURIComponent q of
        Inl err \<Rightarrow> ([], Inl err)
      | Inr e \<Rightarrow>
          if \<not> truthy (env h (js ''HIGHSPOT_USERNAME'')) \<or> \<not> truthy (env h (js ''HIGHSPOT_PASSWORD''))
          then ([], Inl not_configured)
          else ([issued h e], answered h (issued h e)))"
  by (cases "encodeURIComponent q")
     (simp_all add: searchHighspot_def issued_def answered_def Let_def)

lemma search_issued_answered:
  assumes "search = searchHighspot \<or> search = searchHighspot_src"
    and "fst (search h q) = [req]"
  shows "snd (search h q) = answered h req"
proof (cases "encodeURIComponent q")
  case (Inl err)
  with assms show ?thesis
    by (auto simp: searchHighspot_unfold searchHighspot_src_unfold)
next
  case (Inr e)
  from assms(1) show ?thesis
  proof
    assume s: "search = searchHighspot"
    show ?thesis
    proof (cases "\<not> truthy (env h (js ''HIGHSPOT_USERNAME'')) \<or> \<not> truthy (env h (js ''HIGHSPOT_PASSWORD''))")
      case True
      with assms(2) s Inr show ?thesis by (simp add: searchHighspot_unfold)
    next
      case False
      with assms(2) s Inr show ?thesis by (simp add: searchHighspot_unfold)
    qed
  next
    assume s: "search = searchHighspot_src"
    with assms(2) Inr show ?thesis by (simp add: searchHighspot_src_unfold)
  qed
qed

text \<open>The client with the check: without both credentials no request is issued.\<close>

lemma searchHighspot_no_request_without_credentials:
  assumes "\<not> truthy (env h (js ''HIGHSPOT_USERNAME'')) \<or> \<not> truthy (env h (js ''HIGHSPOT_PASSWORD''))"
  shows "fst (searchHighspot h q) = [] \<and> (\<exists>err. snd (searchHighspot h q) = Inl err)"
  using assms by (cases "encodeURIComponent q") (auto simp: searchHighspot_unfold)

lemma searchHighspot_not_configured:
  assumes "\<not> truthy (env h (js ''HIGHSPOT_USERNAME'')) \<or> \<not> truthy (env h (js ''HIGHSPOT_PASSWORD''))"
    and "isWellFormed q"
  shows "searchHighspot h q = ([], Inl not_configured)"
proof -
  from assms(2) obtain e where e: "encodeURIComponent q = Inr e"
    by (auto simp: encodeURIComponent_wellformed)
  with assms(1) show ?thesis by (auto simp: searchHighspot_unfold)
qed

text \<open>The client of src/index.js issues its request whatever the configuration.\<close>

lemma searchHighspot_src_always_requests:
  assumes "isWellFormed q"
  shows "length (fst (searchHighspot_src h q)) = 1"
proof -
  from assms obtain e where e: "encodeURIComponent q = Inr e"
    by (auto simp: encodeURIComponent_wellformed)
  then show ?thesis by (simp add: searchHighspot_src_unfold)
qed

subsection \<open>Runs on the two hosts\<close>

lemma js_append: "js a @ js b = js (a @ b)"
  by (simp add: js_def)

lemma js_not_empty: "js (c # s) \<noteq> []"
  by (simp add: js_def)

lemma unconfigured_env:
  "env unconfigured_host k = None"
  by (simp add: unconfigured_host_def)

lemma configured_env:
  "env configured_host (js ''HIGHSPOT_USERNAME'') = Some (js ''alice'')"
  "env configured_host (js ''HIGHSPOT_PASSWORD'') = Some (js ''secret'')"
  by (simp_all add: configured_host_def string_eval)

lemma encode_x: "encodeURIComponent (js ''x'') = Inr (js ''x'')"
  by (simp add: search_eval string_eval)

lemma encode_sales_deck: "encodeURIComponent (js ''sales deck'') = Inr (js ''sales%20deck'')"
  by (simp add: search_eval string_eval)

lemma encode_lone_surrogate: "encodeURIComponent [0xD83D] = Inl uri_malformed"
  by (simp add: search_eval)

lemma base64_undefined:
  "base64 (Buffer_from (js ''undefined:undefined'')) = js ''dW5kZWZpbmVkOnVuZGVmaW5lZA==''"
  by (simp add: search_eval string_eval)

lemma base64_alice:
  "base64 (Buffer_from (js ''alice:secret'')) = js ''YWxpY2U6c2VjcmV0''"
  by (simp add: search_eval string_eval)

lemma issued_unconfigured:
  "issued unconfigured_host (js ''x'') =
     \<lparr>method = js ''GET'',
      url = js ''https://api-su2.highspot.com/v1.0/search/items?query-string=x&start=0&limit=10&sortby=relevancy'',
      headers = [(js ''accept'', js ''application/json''),
                 (js ''Authorization'', js ''Basic dW5kZWZpbmVkOnVuZGVmaW5lZA=='')]\<rparr>"
proof -
  have "template (env unconfigured_host (js ''HIGHSPOT_USERNAME'')) @ js '':'' @
        template (env unconfigured_host (js ''HIGHSPOT_PASSWORD'')) = js ''undefined:undefined''"
    by (simp add: unconfigured_env template_def string_eval)
  then show ?thesis
    by (simp only: issued_def base64_undefined) (simp add: search_request_def search_url_def string_eval)
qed

lemma issued_configured:
  "issued configured_host e =
     \<lparr>method = js ''GET'',
      url = js ''https://api-su2.highspot.com/v1.0/search/items?query-string='' @ e @
            js ''&start=0&limit=10&sortby=relevancy'',
      headers = [(js ''accept'', js ''application/json''),
                 (js ''Authorization'', js ''Basic YWxpY2U6c2VjcmV0'')]\<rparr>"
proof -
  have "template (env configured_host (js ''HIGHSPOT_USERNAME'')) @ js '':'' @
        template (env configured_host (js ''HIGHSPOT_PASSWORD'')) = js ''alice:secret''"
    by (simp add: configured_env template_def) (simp add: string_eval)
  then show ?thesis
    by (simp only: issued_def base64_alice) (simp add: search_request_def search_url_def js_append)
qed

lemma answered_unconfigured:
  "answered unconfigured_host r = Inl (Error (js ''Highspot API error: 401 Unauthorized''))"
  by (simp add: answered_def unconfigured_host_def ok_def api_error_def dec_digits.simps
      string_eval)

lemma fetch_configured_sales_deck:
  "fetch configured_host (issued configured_host (js ''sales%20deck'')) =
     Inr \<lparr>status = 200, statusText = js ''OK'', json = Inr ()\<rparr>"
  by (simp add: issued_configured) (simp add: configured_host_def search_url_def)

lemma fetch_configured_x:
  "fetch configured_host (issued configured_host (js ''x'')) =
     Inr \<lparr>status = 404, statusText = js ''Not Found'',
          json = Inl (SyntaxError (js ''Unexpected end of JSON input''))\<rparr>"
  by (simp add: issued_configured) (simp add: configured_host_def search_url_def string_eval)

lemma configured_truthy:
  "truthy (env configured_host (js ''HIGHSPOT_USERNAME''))"
  "truthy (env configured_host (js ''HIGHSPOT_PASSWORD''))"
  by (simp_all add: configured_env truthy_def) (simp_all add: js_def)

lemma requests_configured:
  "fst (searchHighspot configured_host (js ''sales deck'')) =
     [issued configured_host (js ''sales%20deck'')]"
  "fst (searchHighspot configured_host (js ''x'')) = [issued configured_host (js ''x'')]"
  "fst (searchHighspot_src configured_host (js ''sales deck'')) =
     [issued configured_host (js ''sales%20deck'')]"
  "fst (searchHighspot_src configured_host (js ''x'')) = [issued configured_host (js ''x'')]"
  by (simp_all add: searchHighspot_unfold searchHighspot_src_unfold encode_sales_deck encode_x
      configured_truthy)

subsection \<open>Claims about the client\<close>

text \<open>
  Claim C2, on the client of src/index.js. Without credentials the call still issues
  its request, with the header built from \<open>undefined:undefined\<close>, and fails only on the
  network's answer, not with a configuration error before any request. (The client of the
  other entry file does check: \<open>searchHighspot_not_configured\<close>.)
\<close>

theorem searchHighspot_src_without_credentials:
  "env unconfigured_host (js ''HIGHSPOT_USERNAME'') = None
   \<and> env unconfigured_host (js ''HIGHSPOT_PASSWORD'') = None
   \<and> searchHighspot_src unconfigured_host (js ''x'') =
       ([\<lparr>method = js ''GET'',
          url = js ''https://api-su2.highspot.com/v1.0/search/items?query-string=x&start=0&limit=10&sortby=relevancy'',
          headers = [(js ''accept'', js ''application/json''),
                     (js ''Authorization'', js ''Basic dW5kZWZpbmVkOnVuZGVmaW5lZA=='')]\<rparr>],
        Inl (Error (js ''Highspot API error: 401 Unauthorized'')))"
  by (simp only: unconfigured_env searchHighspot_src_unfold encode_x sum.case
      issued_unconfigured answered_unconfigured simp_thms)

text \<open>
  Claim C5. When a call of the search client has issued its request and the network has
  answered with a response: if the status is not 2xx the call fails with the error
  \<open>Highspot API error: <status> <statusText>\<close>; if it is 2xx the call returns what the
  response's \<open>json()\<close> gives, unchanged.
\<close>

theorem search_response:
  assumes "search = searchHighspot \<or> search = searchHighspot_src"
    and "fst (search h q) = [req]"
    and "fetch h req = Inr response"
  shows "snd (search h q) =
           (if 200 \<le> status response \<and> status response \<le> 299 then json response
            else Inl (Error (js ''Highspot API error: '' @ dec_digits (int (status response)) @
                             js '' '' @ statusText response)))"
  using search_issued_answered [OF assms(1,2)] assms(3)
  by (simp add: answered_def ok_def api_error_def)

theorem search_response_witness:
  "snd (searchHighspot configured_host (js ''sales deck'')) = Inr ()
   \<and> snd (searchHighspot configured_host (js ''x'')) =
       Inl (Error (js ''Highspot API error: 404 Not Found''))
   \<and> snd (searchHighspot_src configured_host (js ''sales deck'')) = Inr ()
   \<and> snd (searchHighspot_src configured_host (js ''x'')) =
       Inl (Error (js ''Highspot API error: 404 Not Found''))"
proof -
  have d: "dec_digits 404 = js ''404''"
    by (simp add: dec_digits.simps string_eval)
  have m: "js ''Highspot API error: '' @ js ''404'' @ js '' '' @ js ''Not Found'' =
           js ''Highspot API error: 404 Not Found''"
    by (simp add: js_append)
  have a: "snd (searchHighspot configured_host (js ''sales deck'')) = Inr ()"
    using search_response [of searchHighspot, OF _ requests_configured(1)
        fetch_configured_sales_deck]
    by simp
  have b: "snd (searchHighspot configured_host (js ''x'')) =
           Inl (Error (js ''Highspot API error: 404 Not Found''))"
    using search_response [of searchHighspot, OF _ requests_configured(2) fetch_configured_x]
    by (simp add: d m)
  have c: "snd (searchHighspot_src configured_host (js ''sales deck'')) = Inr ()"
    using search_response [of searchHighspot_src, OF _ requests_configured(3)
        fetch_configured_sales_deck]
    by simp
  have e: "snd (searchHighspot_src configured_host (js ''x'')) =
           Inl (Error (js ''Highspot API error: 404 Not Found''))"
    using search_response [of searchHighspot_src, OF _ requests_configured(4)
        fetch_configured_x]
    by (simp add: d m)
  from a b c e show ?thesis by simp
qed

text \<open>
  Claim C6, as stated, fails: without credentials the client with the check issues no
  request, and a query with a lone surrogate makes either client fail before any request.
\<close>

theorem search_request_counterexample:
  "fst (searchHighspot unconfigured_host (js ''x'')) = []
   \<and> fst (searchHighspot configured_host [0xD83D]) = []
   \<and> fst (searchHighspot_src configured_host [0xD83D]) = []"
  by (simp only: searchHighspot_unfold searchHighspot_src_unfold encode_x encode_lone_surrogate
      sum.case)
     (simp add: unconfigured_env truthy_def)

text \<open>
  Claim C6, amended. For a well-formed query, with both credentials configured and
  non-empty, either client issues exactly one request: a GET of the fixed URL with
  \<open>query-string\<close> the \<open>encodeURIComponent\<close> of the query, \<open>start=0\<close>, \<open>limit=10\<close>,
  \<open>sortby=relevancy\<close>, and the headers \<open>accept: application/json\<close> and
  \<open>Authorization: Basic\<close> with the base64 of \<open>username:password\<close>.
\<close>

theorem search_request_shape:
  assumes "isWellFormed q"
    and "env h (js ''HIGHSPOT_USERNAME'') = Some username" and "username \<noteq> []"
    and "env h (js ''HIGHSPOT_PASSWORD'') = Some password" and "password \<noteq> []"
  shows "\<exists>encodedQuery. encodeURIComponent q = Inr encodedQuery \<and>
           fst (searchHighspot h q) =
             [\<lparr>method = js ''GET'',
               url = js ''https://api-su2.highspot.com/v1.0/search/items?query-string='' @
                     encodedQuery @ js ''&start=0&limit=10&sortby=relevancy'',
               headers = [(js ''accept'', js ''application/json''),
                          (js ''Authorization'',
                           js ''Basic '' @ base64 (Buffer_from (username @ js '':'' @ password)))]\<rparr>]
           \<and> fst (searchHighspot_src h q) = fst (searchHighspot h q)"
proof -
  from assms(1) obtain e where e: "encodeURIComponent q = Inr e"
    by (auto simp: encodeURIComponent_wellformed)
  have t: "truthy (env h (js ''HIGHSPOT_USERNAME''))" "truthy (env h (js ''HIGHSPOT_PASSWORD''))"
    using assms(2-) by (simp_all add: truthy_def)
  have i: "issued h e =
           \<lparr>method = js ''GET'',
               url = js ''https://api-su2.highspot.com/v1.0/search/items?query-string='' @
                     e @ js ''&start=0&limit=10&sortby=relevancy'',
               headers = [(js ''accept'', js ''application/json''),
                          (js ''Authorization'',
                           js ''Basic '' @ base64 (Buffer_from (username @ js '':'' @ password)))]\<rparr>"
    using assms(2,4) by (simp add: issued_def search_request_def search_url_def template_def)
  have "fst (searchHighspot h q) = [issued h e]" "fst (searchHighspot_src h q) = [issued h e]"
    using e t by (simp_all add: searchHighspot_unfold searchHighspot_src_unfold)
  with e i show ?thesis by simp
qed

theorem search_request_shape_witness:
  "encodeURIComponent (js ''sales deck'') = Inr (js ''sales%20deck'')
   \<and> fst (searchHighspot configured_host (js ''sales deck'')) =
       [\<lparr>method = js ''GET'',
         url = js ''https://api-su2.highspot.com/v1.0/search/items?query-string=sales%20deck&start=0&limit=10&sortby=relevancy'',
         headers = [(js ''accept'', js ''application/json''),
                    (js ''Authorization'', js ''Basic YWxpY2U6c2VjcmV0'')]\<rparr>]
   \<and> fst (searchHighspot_src configured_host (js ''sales deck'')) =
       fst (searchHighspot configured_host (js ''sales deck''))"
proof -
  have wf: "isWellFormed (js ''sales deck'')"
    by (simp add: is_lead_def is_trail_def string_eval)
  have ne: "js ''alice'' \<noteq> []" "js ''secret'' \<noteq> []"
    by (simp_all add: js_def)
  have cat: "js ''alice'' @ js '':'' @ js ''secret'' = js ''alice:secret''"
    by (simp add: js_append)
  have u: "js ''https://api-su2.highspot.com/v1.0/search/items?query-string='' @
           js ''sales%20deck'' @ js ''&start=0&limit=10&sortby=relevancy'' =
           js ''https://api-su2.highspot.com/v1.0/search/items?query-string=sales%20deck&start=0&limit=10&sortby=relevancy''"
    by (simp add: js_append)
  have b: "js ''Basic '' @ js ''YWxpY2U6c2VjcmV0'' = js ''Basic YWxpY2U6c2VjcmV0''"
    by (simp add: js_append)
  from search_request_shape [OF wf configured_env(1) ne(1) configured_env(2) ne(2)]
  obtain e where e: "encodeURIComponent (js ''sales deck'') = Inr e"
    and r: "fst (searchHighspot configured_host (js ''sales deck'')) =
             [\<lparr>method = js ''GET'',
               url = js ''https://api-su2.highspot.com/v1.0/search/items?query-string='' @
                     e @ js ''&start=0&limit=10&sortby=relevancy'',
               headers = [(js ''accept'', js ''application/json''),
                          (js ''Authorization'',
                           js ''Basic '' @
                           base64 (Buffer_from (js ''alice'' @ js '':'' @ js ''secret'')))]\<rparr>]"
    and s: "fst (searchHighspot_src configured_host (js ''sales deck'')) =
            fst (searchHighspot configured_host (js ''sales deck''))"
    by blast
  from e have "e = js ''sales%20deck''" by (simp add: encode_sales_deck)
  with r have "fst (searchHighspot configured_host (js ''sales deck'')) =
       [\<lparr>method = js ''GET'',
         url = js ''https://api-su2.highspot.com/v1.0/search/items?query-string=sales%20deck&start=0&limit=10&sortby=relevancy'',
         headers = [(js ''accept'', js ''application/json''),
                    (js ''Authorization'', js ''Basic YWxpY2U6c2VjcmV0'')]\<rparr>]"
    by (simp add: cat base64_alice u b)
  with s show ?thesis by (simp add: encode_sales_deck)
qed

section \<open>Every handler turns a thrown error into an envelope\<close>

lemma mathAdditionExample_tool_outcome:
  "mathAdditionExample_tool e =
     (case addExpression e of
        Inl err \<Rightarrow> Inr \<lparr>content = [\<lparr>type = js ''text'', text = message err\<rparr>]\<rparr>
      | Inr v \<Rightarrow> Inr \<lparr>content = [\<lparr>type = js ''text'', text = ToString v\<rparr>]\<rparr>)"
  by (simp add: mathAdditionExample_tool_def try_catch_def then_do_def split: sum.splits)

lemma math_addition_example_prompt_outcome:
  "math_addition_example_prompt e =
     (case addExpression e of
        Inl err \<Rightarrow>
          Inr \<lparr>content = [\<lparr>type = js ''text'',
                text = js ''I encountered an issue with that expression: '' @ message err\<rparr>]\<rparr>
      | Inr v \<Rightarrow>
          Inr \<lparr>content = [\<lparr>type = js ''text'',
                text = js ''The sum of '' @ [apostrophe] @ e @ [apostrophe] @ js '' is '' @
                       ToString v @ js ''.''\<rparr>]\<rparr>)"
  by (simp add: math_addition_example_prompt_def try_catch_def then_do_def split: sum.splits)

lemma requestExpressionForAddition_outcome:
  "requestExpressionForAddition e =
     (case addExpression e of
        Inl err \<Rightarrow>
          Inr \<lparr>content = [\<lparr>type = js ''text'',
                text = js ''I encountered an issue: '' @ message err @
                       js ''. Please try again with a valid expression.''\<rparr>]\<rparr>
      | Inr v \<Rightarrow>
          Inr \<lparr>content = [\<lparr>type = js ''text'',
                text = js ''Okay, the sum of '' @ e @ js '' is '' @ ToString v @ js ''.''\<rparr>]\<rparr>)"
  by (simp add: requestExpressionForAddition_def try_catch_def then_do_def split: sum.splits)

lemma trim_Nil: "trim [] = []"
  by (simp add: trim_def)

lemma guidedAdditionHelp_outcome:
  assumes "trim e \<noteq> []"
  shows "guidedAdditionHelp (Some e) =
     (case addExpression e of
        Inl err \<Rightarrow>
          Inr \<lparr>content =
            [\<lparr>type = js ''text'', text = js ''Error: '' @ message err\<rparr>,
             \<lparr>type = js ''text'',
              text = js (''Please ensure your expression is like '' @ [CHR 0x27] @
                         ''5+10+15'' @ [CHR 0x27] @ ''.'')\<rparr>]\<rparr>
      | Inr v \<Rightarrow>
          Inr \<lparr>content =
            [\<lparr>type = js ''text'',
              text = js ''Calculating '' @ [apostrophe] @ e @ [apostrophe] @
                     js ''... The result is '' @ ToString v @ js ''.''\<rparr>,
             \<lparr>type = js ''text'',
              text = js (''You can use the '' @ [CHR 0x27] @ ''@add'' @ [CHR 0x27] @
                         '' tool directly for future calculations.'')\<rparr>]\<rparr>)"
proof -
  from assms have "e \<noteq> []" using trim_Nil by auto
  with assms show ?thesis
    by (simp add: guidedAdditionHelp_def guidedAdditionHelp_with_def try_catch_def then_do_def
        split: sum.splits)
qed

lemma guidedAdditionHelp_total: "\<exists>v. guidedAdditionHelp arg = Inr v"
proof (cases "\<exists>e. arg = Some e \<and> trim e \<noteq> []")
  case True
  then obtain e where "arg = Some e" "trim e \<noteq> []" by blast
  then show ?thesis
    by (cases "addExpression e") (simp_all add: guidedAdditionHelp_outcome)
next
  case False
  then show ?thesis
    by (cases arg) (auto simp: guidedAdditionHelp_def guidedAdditionHelp_with_def)
qed

lemma searchHighspot_tool_src_outcome:
  "snd (searchHighspot_tool_src h q) =
     (case snd (searchHighspot_src h q) of
        Inl err \<Rightarrow> Inr \<lparr>content = [\<lparr>type = js ''text'', text = message err\<rparr>]\<rparr>
      | Inr results \<Rightarrow>
          Inr \<lparr>content = [\<lparr>type = js ''text'', text = JSON_stringify h results 0\<rparr>]\<rparr>)"
  by (simp add: searchHighspot_tool_src_def try_catch_def then_do_def split_beta
      split: sum.splits)

lemma searchHighspot_tool_outcome:
  "snd (searchHighspot_tool h q) =
     (case snd (searchHighspot h q) of
        Inl err \<Rightarrow> Inr \<lparr>content = [\<lparr>type = js ''text'', text = message err\<rparr>]\<rparr>
      | Inr results \<Rightarrow>
          Inr \<lparr>content = [\<lparr>type = js ''text'', text = JSON_stringify h results 2\<rparr>]\<rparr>)"
  by (simp add: searchHighspot_tool_def try_catch_def then_do_def split_beta
      split: sum.splits)

lemma search_highspot_prompt_outcome:
  "snd (search_highspot_prompt h q) =
     (case snd (searchHighspot h q) of
        Inl err \<Rightarrow>
          Inr \<lparr>content = [\<lparr>type = js ''text'',
                text = js ''I encountered an issue searching Highspot: '' @ message err\<rparr>]\<rparr>
      | Inr results \<Rightarrow>
          Inr \<lparr>content =
            [\<lparr>type = js ''text'',
              text = js ''Okay, I searched Highspot for '' @ [apostrophe] @ q @ [apostrophe] @
                     js ''.''\<rparr>,
             \<lparr>type = js ''text'', text = JSON_stringify h results 2\<rparr>]\<rparr>)"
  by (simp add: search_highspot_prompt_def try_catch_def then_do_def split_beta
      split: sum.splits)

lemma guidedAdditionHelp_2_plus_plus_4:
  "guidedAdditionHelp (Some (js ''2++4'')) =
     Inr \<lparr>content =
       [\<lparr>type = js ''text'', text = js ''Error: '' @ invalid_expression_message\<rparr>,
        \<lparr>type = js ''text'',
         text = js (''Please ensure your expression is like '' @ [CHR 0x27] @
                    ''5+10+15'' @ [CHR 0x27] @ ''.'')\<rparr>]\<rparr>"
proof -
  have "trim (js ''2++4'') \<noteq> []"
    by (simp add: trim_def is_ws_def string_eval)
  from guidedAdditionHelp_outcome [OF this] show ?thesis
    by (simp only: addExpression_2_plus_plus_4 sum.case jserror.sel)
qed

text \<open>
  Claim C1, as stated, fails: on \<open>"2++4"\<close> the evaluator throws the invalid-expression
  error, and \<open>guidedAdditionHelp\<close> answers with two text blocks, the first of which is not
  the error's message alone.
\<close>

theorem handler_error_counterexample:
  "addExpression (js ''2++4'') = Inl (Error invalid_expression_message)
   \<and> guidedAdditionHelp (Some (js ''2++4'')) \<noteq>
       Inr \<lparr>content = [\<lparr>type = js ''text'', text = invalid_expression_message\<rparr>]\<rparr>
   \<and> length (content (projr (guidedAdditionHelp (Some (js ''2++4''))))) = 2"
  by (simp add: addExpression_2_plus_plus_4 guidedAdditionHelp_2_plus_plus_4)

text \<open>
  Claim C1, amended. No handler lets an error out: each returns an envelope. When the
  computation under a handler throws, the tools (\<open>add\<close>, \<open>mathAdditionExample\<close>, both
  \<open>searchHighspot\<close>) return exactly one text block whose text is the error's message;
  the prompts \<open>math_addition_example_prompt\<close>, \<open>requestExpressionForAddition\<close> and
  \<open>search_highspot_prompt\<close> return exactly one text block, the message inside a sentence
  of the prompt's own; \<open>guidedAdditionHelp\<close> returns two text blocks, \<open>Error:\<close> with the
  message and a hint.
\<close>

theorem handler_errors_become_envelopes:
  "(\<exists>v. add_tool e = Inr v) \<and> (\<exists>v. mathAdditionExample_tool e = Inr v)
   \<and> (\<exists>v. math_addition_example_prompt e = Inr v)
   \<and> (\<exists>v. requestExpressionForAddition e = Inr v)
   \<and> (\<exists>v. guidedAdditionHelp arg = Inr v)
   \<and> (\<exists>v. snd (searchHighspot_tool_src h q) = Inr v)
   \<and> (\<exists>v. snd (searchHighspot_tool h q) = Inr v)
   \<and> (\<exists>v. snd (search_highspot_prompt h q) = Inr v)
   \<and> (addExpression e = Inl err \<longrightarrow>
        add_tool e = Inr \<lparr>content = [\<lparr>type = js ''text'', text = message err\<rparr>]\<rparr>
        \<and> mathAdditionExample_tool e =
            Inr \<lparr>content = [\<lparr>type = js ''text'', text = message err\<rparr>]\<rparr>
        \<and> math_addition_example_prompt e =
            Inr \<lparr>content = [\<lparr>type = js ''text'',
                  text = js ''I encountered an issue with that expression: '' @ message err\<rparr>]\<rparr>
        \<and> requestExpressionForAddition e =
            Inr \<lparr>content = [\<lparr>type = js ''text'',
                  text = js ''I encountered an issue: '' @ message err @
                         js ''. Please try again with a valid expression.''\<rparr>]\<rparr>
        \<and> (trim e \<noteq> [] \<longrightarrow>
             guidedAdditionHelp (Some e) =
               Inr \<lparr>content =
                 [\<lparr>type = js ''text'', text = js ''Error: '' @ message err\<rparr>,
                  \<lparr>type = js ''text'',
                   text = js (''Please ensure your expression is like '' @ [CHR 0x27] @
                              ''5+10+15'' @ [CHR 0x27] @ ''.'')\<rparr>]\<rparr>))
   \<and> (snd (searchHighspot_src h q) = Inl err_src \<longrightarrow>
        snd (searchHighspot_tool_src h q) =
          Inr \<lparr>content = [\<lparr>type = js ''text'', text = message err_src\<rparr>]\<rparr>)
   \<and> (snd (searchHighspot h q) = Inl err_search \<longrightarrow>
        snd (searchHighspot_tool h q) =
          Inr \<lparr>content = [\<lparr>type = js ''text'', text = message err_search\<rparr>]\<rparr>
        \<and> snd (search_highspot_prompt h q) =
            Inr \<lparr>content = [\<lparr>type = js ''text'',
                  text = js ''I encountered an issue searching Highspot: '' @
                         message err_search\<rparr>]\<rparr>)"
proof -
  have t1: "\<exists>v. add_tool e = Inr v"
    by (cases "addExpression e") (simp_all add: add_tool_outcome)
  have t2: "\<exists>v. mathAdditionExample_tool e = Inr v"
    by (cases "addExpression e") (simp_all add: mathAdditionExample_tool_outcome)
  have t3: "\<exists>v. math_addition_example_prompt e = Inr v"
    by (cases "addExpression e") (simp_all add: math_addition_example_prompt_outcome)
  have t4: "\<exists>v. requestExpressionForAddition e = Inr v"
    by (cases "addExpression e") (simp_all add: requestExpressionForAddition_outcome)
  have t5: "\<exists>v. guidedAdditionHelp arg = Inr v"
    by (rule guidedAdditionHelp_total)
  have t6: "\<exists>v. snd (searchHighspot_tool_src h q) = Inr v"
    by (cases "snd (searchHighspot_src h q)") (simp_all add: searchHighspot_tool_src_outcome)
  have t7: "\<exists>v. snd (searchHighspot_tool h q) = Inr v"
    by (cases "snd (searchHighspot h q)") (simp_all add: searchHighspot_tool_outcome)
  have t8: "\<exists>v. snd (search_highspot_prompt h q) = Inr v"
    by (cases "snd (searchHighspot h q)") (simp_all add: search_highspot_prompt_outcome)
  have e1: "addExpression e = Inl err \<longrightarrow>
        add_tool e = Inr \<lparr>content = [\<lparr>type = js ''text'', text = message err\<rparr>]\<rparr>
        \<and> mathAdditionExample_tool e =
            Inr \<lparr>content = [\<lparr>type = js ''text'', text = message err\<rparr>]\<rparr>
        \<and> math_addition_example_prompt e =
            Inr \<lparr>content = [\<lparr>type = js ''text'',
                  text = js ''I encountered an issue with that expression: '' @ message err\<rparr>]\<rparr>
        \<and> requestExpressionForAddition e =
            Inr \<lparr>content = [\<lparr>type = js ''text'',
                  text = js ''I encountered an issue: '' @ message err @
                         js ''. Please try again with a valid expression.''\<rparr>]\<rparr>
        \<and> (trim e \<noteq> [] \<longrightarrow>
             guidedAdditionHelp (Some e) =
               Inr \<lparr>content =
                 [\<lparr>type = js ''text'', text = js ''Error: '' @ message err\<rparr>,
                  \<lparr>type = js ''text'',
                   text = js (''Please ensure your expression is like '' @ [CHR 0x27] @
                              ''5+10+15'' @ [CHR 0x27] @ ''.'')\<rparr>]\<rparr>)"
    by (simp add: add_tool_outcome mathAdditionExample_tool_outcome
        math_addition_example_prompt_outcome requestExpressionForAddition_outcome
        guidedAdditionHelp_outcome)
  have e2: "snd (searchHighspot_src h q) = Inl err_src \<longrightarrow>
        snd (searchHighspot_tool_src h q) =
          Inr \<lparr>content = [\<lparr>type = js ''text'', text = message err_src\<rparr>]\<rparr>"
    by (simp add: searchHighspot_tool_src_outcome)
  have e3: "snd (searchHighspot h q) = Inl err_search \<longrightarrow>
        snd (searchHighspot_tool h q) =
          Inr \<lparr>content = [\<lparr>type = js ''text'', text = message err_search\<rparr>]\<rparr>
        \<and> snd (search_highspot_prompt h q) =
            Inr \<lparr>content = [\<lparr>type = js ''text'',
                  text = js ''I encountered an issue searching Highspot: '' @
                         message err_search\<rparr>]\<rparr>"
    by (simp add: searchHighspot_tool_outcome search_highspot_prompt_outcome)
  from t1 t2 t3 t4 t5 t6 t7 t8 e1 e2 e3 show ?thesis by blast
qed

theorem handler_errors_become_envelopes_witness:
  "add_tool (js ''2++4'') =
     Inr \<lparr>content = [\<lparr>type = js ''text'', text = invalid_expression_message\<rparr>]\<rparr>
   \<and> math_addition_example_prompt (js ''2++4'') =
       Inr \<lparr>content = [\<lparr>type = js ''text'',
             text = js ''I encountered an issue with that expression: '' @
                    invalid_expression_message\<rparr>]\<rparr>
   \<and> guidedAdditionHelp (Some (js ''2++4'')) =
       Inr \<lparr>content =
         [\<lparr>type = js ''text'', text = js ''Error: '' @ invalid_expression_message\<rparr>,
          \<lparr>type = js ''text'',
           text = js (''Please ensure your expression is like '' @ [CHR 0x27] @
                      ''5+10+15'' @ [CHR 0x27] @ ''.'')\<rparr>]\<rparr>
   \<and> snd (searchHighspot_tool_src unconfigured_host (js ''x'')) =
       Inr \<lparr>content = [\<lparr>type = js ''text'',
             text = js ''Highspot API error: 401 Unauthorized''\<rparr>]\<rparr>
   \<and> snd (searchHighspot_tool unconfigured_host (js ''x'')) =
       Inr \<lparr>content = [\<lparr>type = js ''text'', text = message not_configured\<rparr>]\<rparr>
   \<and> snd (search_highspot_prompt unconfigured_host (js ''x'')) =
       Inr \<lparr>content = [\<lparr>type = js ''text'',
             text = js ''I encountered an issue searching Highspot: '' @
                    message not_configured\<rparr>]\<rparr>"
proof -
  have a: "addExpression (js ''2++4'') = Inl (Error invalid_expression_message)"
    by (rule addExpression_2_plus_plus_4)
  have t: "trim (js ''2++4'') \<noteq> []"
    by (simp add: trim_def is_ws_def string_eval)
  have s1: "snd (searchHighspot_src unconfigured_host (js ''x'')) =
            Inl (Error (js ''Highspot API error: 401 Unauthorized''))"
    by (simp only: searchHighspot_src_unfold encode_x sum.case answered_unconfigured snd_conv)
  have s2: "snd (searchHighspot unconfigured_host (js ''x'')) = Inl not_configured"
    by (simp only: searchHighspot_unfold encode_x sum.case)
       (simp add: unconfigured_env truthy_def)
  from handler_errors_become_envelopes
    [of "js ''2++4''" "Some (js ''2++4'')" unconfigured_host "js ''x''"
        "Error invalid_expression_message"
        "Error (js ''Highspot API error: 401 Unauthorized'')" not_configured]
    a t s1 s2
  show ?thesis by simp
qed

section \<open>Sanity of the string operations\<close>

text \<open>One more part than there are separators.\<close>

lemma length_split: "length (split sep s) = Suc (length (filter (\<lambda>c. c = sep) s))"
proof (induction s)
  case Nil
  then show ?case by simp
next
  case (Cons c cs)
  have "split sep cs \<noteq> []" by (rule split_nonempty)
  then have "length (tl (split sep cs)) = length (split sep cs) - 1" by simp
  with Cons \<open>split sep cs \<noteq> []\<close> show ?case by (simp add: Let_def)
qed

text \<open>No part contains the separator.\<close>

lemma split_parts_free: "p \<in> set (split sep s) \<Longrightarrow> sep \<notin> set p"
proof (induction s arbitrary: p)
  case Nil
  then show ?case by simp
next
  case (Cons c cs)
  have ne: "split sep cs \<noteq> []" by (rule split_nonempty)
  then obtain r rs where r: "split sep cs = r # rs" by (cases "split sep cs") auto
  show ?case
  proof (cases "c = sep")
    case True
    with Cons.prems have "p = [] \<or> p \<in> set (split sep cs)" by (simp add: Let_def)
    with Cons.IH show ?thesis by auto
  next
    case False
    with Cons.prems r have "p = c # r \<or> p \<in> set rs" by (simp add: Let_def)
    with Cons.IH r False show ?thesis by auto
  qed
qed

text \<open>
  What \<open>encodeURIComponent\<close> returns holds only unreserved characters and
  percent-escapes.
\<close>

lemma hex_digit_set: "n < 16 \<Longrightarrow> hex_digit n \<in> set (js ''0123456789ABCDEF'')"
  unfolding hex_digit_def by (rule nth_mem) (simp add: js_def)

lemma percent_chars:
  "c \<in> set (percent b) \<Longrightarrow> c = cu CHR ''%'' \<or> c \<in> set (js ''0123456789ABCDEF'')"
proof -
  assume c: "c \<in> set (percent b)"
  have "unat b < 2 ^ LENGTH(8)" by (rule unsigned_less)
  then have "unat b < 256" by simp
  then have "unat b div 16 < 16" "unat b mod 16 < 16" by simp_all
  then have "hex_digit (unat b div 16) \<in> set (js ''0123456789ABCDEF'')"
    "hex_digit (unat b mod 16) \<in> set (js ''0123456789ABCDEF'')"
    by (simp_all only: hex_digit_set)
  with c show ?thesis by (auto simp: percent_def)
qed

lemma encodeURIComponent_chars:
  "encodeURIComponent q = Inr e \<Longrightarrow> c \<in> set e \<Longrightarrow>
   is_unreserved c \<or> c = cu CHR ''%'' \<or> c \<in> set (js ''0123456789ABCDEF'')"
proof (induction q arbitrary: e rule: encodeURIComponent.induct)
  case 1
  then show ?case by simp
next
  case (2 a cs)
  show ?case
  proof (cases "is_unreserved a")
    case True
    with "2.prems"(1) obtain r where r: "encodeURIComponent cs = Inr r" "e = a # r"
      by (cases "encodeURIComponent cs") (auto simp: then_do_def)
    from "2.prems"(2) r(2) have "c = a \<or> c \<in> set r" by simp
    with "2.IH"(1) [OF True r(1)] True show ?thesis by auto
  next
    case unres: False
    show ?thesis
    proof (cases "is_trail a")
      case True
      with unres "2.prems"(1) show ?thesis by simp
    next
      case nt: False
      show ?thesis
      proof (cases "is_lead a")
        case lead: True
        with unres nt "2.prems"(1) obtain d ds where cs: "cs = d # ds" and d: "is_trail d"
          by (cases cs) (auto split: if_splits)
        with unres nt lead "2.prems"(1) obtain r where
          r: "encodeURIComponent ds = Inr r"
             "e = concat (map percent (utf8 (pair_code_point a d))) @ r"
          by (cases "encodeURIComponent ds") (auto simp: then_do_def)
        from "2.prems"(2) r(2)
        have "(\<exists>b. c \<in> set (percent b)) \<or> c \<in> set r" by auto
        with "2.IH"(2) [OF unres nt lead cs d r(1)] percent_chars show ?thesis by blast
      next
        case nl: False
        with unres nt "2.prems"(1) obtain r where
          r: "encodeURIComponent cs = Inr r" "e = concat (map percent (utf8 (unat a))) @ r"
          by (cases "encodeURIComponent cs") (auto simp: then_do_def)
        from "2.prems"(2) r(2)
        have "(\<exists>b. c \<in> set (percent b)) \<or> c \<in> set r" by auto
        with "2.IH"(3) [OF unres nt nl r(1)] percent_chars show ?thesis by blast
      qed
    qed
  qed
qed

end
